theory Spec2Isabelle
  imports Complex_Main
begin

section \<open>JavaScript values, strings and numbers\<close>

text \<open>
  The keyword-taxonomy visualizer is written in JavaScript. Its data arrives as parsed
  JSON, so a field of a node, keyword or filter setting is undefined (absent), null, a
  boolean, a number or a string. JSON numbers are modelled as real numbers: IEEE rounding
  and overflow are not represented, every comparison below is exact. Strings are lists of
  8-bit characters; case conversion and the word-character class act on the ASCII range.
\<close>

datatype jsval = JUndefined | JNull | JBool bool | JNum real | JStr string

text \<open>Truthiness, as used by \<^verbatim>\<open>x || 0\<close>, \<^verbatim>\<open>!x\<close> and \<^verbatim>\<open>if (x)\<close>.\<close>

fun truthy :: "jsval \<Rightarrow> bool" where
  "truthy JUndefined = False"
| "truthy JNull = False"
| "truthy (JBool b) = b"
| "truthy (JNum r) = (r \<noteq> 0)"
| "truthy (JStr s) = (s \<noteq> [])"

text \<open>\<^verbatim>\<open>v || 0\<close>\<close>

definition or0 :: "jsval \<Rightarrow> jsval" where
  "or0 v = (if truthy v then v else JNum 0)"

text \<open>\<^verbatim>\<open>name\<close> fields are strings or absent; \<^verbatim>\<open>!name\<close> holds for both absent and empty.\<close>

definition falsy_str :: "string option \<Rightarrow> bool" where
  "falsy_str s = (s = None \<or> s = Some [])"

subsection \<open>Characters\<close>

definition upper_letters :: string where
  "upper_letters = ''ABCDEFGHIJKLMNOPQRSTUVWXYZ''"

definition lower_letters :: string where
  "lower_letters = ''abcdefghijklmnopqrstuvwxyz''"

definition digit_chars :: string where
  "digit_chars = ''0123456789''"

definition isDigit :: "char \<Rightarrow> bool" where
  "isDigit c = (c \<in> set digit_chars)"

text \<open>The regular-expression class \<^verbatim>\<open>\w\<close>: letters, digits and the underscore.\<close>

definition isWordChar :: "char \<Rightarrow> bool" where
  "isWordChar c = (c \<in> set lower_letters \<or> c \<in> set upper_letters \<or> c \<in> set digit_chars \<or> c = CHR ''_'')"

text \<open>White space removed by \<^verbatim>\<open>trim\<close> and skipped by \<^verbatim>\<open>parseFloat\<close>:
  space, tab, line feed, vertical tab, form feed, carriage return.\<close>

definition isSpace :: "char \<Rightarrow> bool" where
  "isSpace c = (c \<in> {CHR 0x20, CHR 0x09, CHR 0x0A, CHR 0x0B, CHR 0x0C, CHR 0x0D})"

definition toLowerChar :: "char \<Rightarrow> char" where
  "toLowerChar c = (case map_of (zip upper_letters lower_letters) c of Some d \<Rightarrow> d | None \<Rightarrow> c)"

definition toUpperChar :: "char \<Rightarrow> char" where
  "toUpperChar c = (case map_of (zip lower_letters upper_letters) c of Some d \<Rightarrow> d | None \<Rightarrow> c)"

text \<open>\<^verbatim>\<open>String.prototype.toLowerCase\<close>\<close>

definition toLowerCase :: "string \<Rightarrow> string" where
  "toLowerCase s = map toLowerChar s"

text \<open>\<^verbatim>\<open>String.prototype.trim\<close>\<close>

definition trim :: "string \<Rightarrow> string" where
  "trim s = rev (dropWhile isSpace (rev (dropWhile isSpace s)))"

text \<open>\<^verbatim>\<open>String.prototype.startsWith\<close>\<close>

fun startsWith :: "string \<Rightarrow> string \<Rightarrow> bool" where
  "startsWith s [] = True"
| "startsWith [] (p # ps) = False"
| "startsWith (c # cs) (p # ps) = (c = p \<and> startsWith cs ps)"

text \<open>\<^verbatim>\<open>String.prototype.includes\<close>: the argument occurs as a contiguous substring.\<close>

fun includesStr :: "string \<Rightarrow> string \<Rightarrow> bool" where
  "includesStr [] ex = (ex = [])"
| "includesStr (c # cs) ex = (startsWith (c # cs) ex \<or> includesStr cs ex)"

text \<open>\<^verbatim>\<open>Array.prototype.join\<close> on an array of strings.\<close>

fun join :: "string \<Rightarrow> string list \<Rightarrow> string" where
  "join sep [] = []"
| "join sep [x] = x"
| "join sep (x # y # ys) = x @ sep @ join sep (y # ys)"

subsection \<open>parseFloat\<close>

text \<open>
  The result of \<^verbatim>\<open>parseFloat\<close>: not-a-number, a finite number, or an infinity (only the
  literal \<^verbatim>\<open>Infinity\<close> yields one here, since overflow is not modelled).
\<close>

datatype pfloat = NaN | Fin real | PosInf | NegInf

text \<open>The relational operators \<^verbatim>\<open><\<close> and \<^verbatim>\<open>>\<close> on numbers; every comparison with NaN is false.\<close>

fun num_less :: "pfloat \<Rightarrow> pfloat \<Rightarrow> bool" where
  "num_less NaN y = False"
| "num_less x NaN = False"
| "num_less (Fin a) (Fin b) = (a < b)"
| "num_less (Fin a) PosInf = True"
| "num_less (Fin a) NegInf = False"
| "num_less PosInf y = False"
| "num_less NegInf NegInf = False"
| "num_less NegInf y = True"

definition num_greater :: "pfloat \<Rightarrow> pfloat \<Rightarrow> bool" where
  "num_greater x y = num_less y x"

definition digitValue :: "char \<Rightarrow> nat" where
  "digitValue c = (case map_of (zip digit_chars [0, 1, 2, 3, 4, 5, 6, 7, 8, 9]) c of Some d \<Rightarrow> d | None \<Rightarrow> 0)"

definition digitsValue :: "string \<Rightarrow> nat" where
  "digitsValue ds = foldl (\<lambda>acc c. 10 * acc + digitValue c) 0 ds"

text \<open>An optional sign in front of the mantissa or the exponent.\<close>

fun splitSign :: "string \<Rightarrow> bool \<times> string" where
  "splitSign [] = (False, [])"
| "splitSign (c # cs) =
     (if c = CHR ''-'' then (True, cs) else if c = CHR ''+'' then (False, cs) else (False, c # cs))"

text \<open>
  The exponent part \<^verbatim>\<open>e\<close> or \<^verbatim>\<open>E\<close>, an optional sign and at least one digit; anything
  else after the mantissa is ignored.
\<close>

definition exponentOf :: "string \<Rightarrow> int" where
  "exponentOf s =
     (case s of
        [] \<Rightarrow> 0
      | c # cs \<Rightarrow>
          if c = CHR ''e'' \<or> c = CHR ''E'' then
            (let (neg, r) = splitSign cs; ds = takeWhile isDigit r
             in if ds = [] then 0 else if neg then - int (digitsValue ds) else int (digitsValue ds))
          else 0)"

definition scale10 :: "real \<Rightarrow> int \<Rightarrow> real" where
  "scale10 x e = (if 0 \<le> e then x * 10 ^ nat e else x / 10 ^ nat (- e))"

text \<open>
  \<^verbatim>\<open>parseFloat\<close> on a string: leading white space is skipped, then the longest prefix that
  is a decimal literal is read (sign, digits, fraction, exponent; or a signed
  \<^verbatim>\<open>Infinity\<close>); no such prefix gives NaN.
\<close>

definition parseFloatStr :: "string \<Rightarrow> pfloat" where
  "parseFloatStr s =
     (let (neg, s2) = splitSign (dropWhile isSpace s) in
      if startsWith s2 ''Infinity'' then (if neg then NegInf else PosInf)
      else
        let ip = takeWhile isDigit s2;
            s3 = dropWhile isDigit s2;
            fp = (case s3 of [] \<Rightarrow> [] | c # r \<Rightarrow> if c = CHR ''.'' then takeWhile isDigit r else []);
            s4 = (case s3 of [] \<Rightarrow> [] | c # r \<Rightarrow> if c = CHR ''.'' then dropWhile isDigit r else s3)
        in if ip = [] \<and> fp = [] then NaN
           else
             let m = real (digitsValue ip) + real (digitsValue fp) / 10 ^ length fp;
                 v = scale10 m (exponentOf s4)
             in Fin (if neg then - v else v))"

text \<open>
  \<^verbatim>\<open>parseFloat\<close> converts its argument to a string first: a number reads back as itself,
  while \<^verbatim>\<open>undefined\<close>, \<^verbatim>\<open>null\<close>, \<^verbatim>\<open>true\<close> and \<^verbatim>\<open>false\<close> have no numeric prefix.
\<close>

fun parseFloat :: "jsval \<Rightarrow> pfloat" where
  "parseFloat (JNum r) = Fin r"
| "parseFloat (JStr s) = parseFloatStr s"
| "parseFloat JUndefined = NaN"
| "parseFloat JNull = NaN"
| "parseFloat (JBool b) = NaN"

section \<open>Range filters (7.2.filterSortUtils.js)\<close>

text \<open>
  A filter setting such as \<^verbatim>\<open>filters.searchVolume\<close>: the selected range key and the two
  custom bounds as typed by the user. An absent \<^verbatim>\<open>currentSelection\<close> is the empty string
  (both are falsy and differ from every key compared with).
\<close>

record range_filter =
  currentSelection :: string
  customMin :: jsval
  customMax :: jsval

text \<open>An entry of a range table such as \<^verbatim>\<open>SEARCH_VOLUME_RANGES\<close> (the label is not used
  by the filters).\<close>

record named_range =
  range_min :: jsval
  range_max :: jsval

type_synonym range_collection = "string \<rightharpoonup> named_range"

text \<open>\<^verbatim>\<open>minBound !== null && !isNaN(minBound) && val < minBound\<close>; \<open>None\<close> is a null bound.\<close>

definition belowMin :: "pfloat \<Rightarrow> pfloat option \<Rightarrow> bool" where
  "belowMin val minBound =
     (case minBound of None \<Rightarrow> False | Some b \<Rightarrow> b \<noteq> NaN \<and> num_less val b)"

text \<open>\<^verbatim>\<open>maxBound !== null && !isNaN(maxBound) && val > maxBound\<close>\<close>

definition aboveMax :: "pfloat \<Rightarrow> pfloat option \<Rightarrow> bool" where
  "aboveMax val maxBound =
     (case maxBound of None \<Rightarrow> False | Some b \<Rightarrow> b \<noteq> NaN \<and> num_greater val b)"

text \<open>
  \<^verbatim>\<open>checkRangeSelectionFilter_internal(value, filterSetting, rangeCollection)\<close>.
  A range table that is absent altogether behaves as the empty table.
\<close>

definition checkRangeSelectionFilter_internal ::
  "jsval \<Rightarrow> range_filter \<Rightarrow> range_collection \<Rightarrow> bool" where
  "checkRangeSelectionFilter_internal value filterSetting rangeCollection =
     (let val = parseFloat value in
      if val = NaN then True
      else if currentSelection filterSetting = ''any'' \<or> currentSelection filterSetting = [] then True
      else if currentSelection filterSetting = ''custom'' then
        (let minBound = (if customMin filterSetting = JStr [] then None
                         else Some (parseFloat (customMin filterSetting)));
             maxBound = (if customMax filterSetting = JStr [] then None
                         else Some (parseFloat (customMax filterSetting)))
         in if belowMin val minBound then False
            else if aboveMax val maxBound then False
            else True)
      else
        (case rangeCollection (currentSelection filterSetting) of
           Some rng \<Rightarrow>
             (let minBound = (if range_min rng \<noteq> JNull then Some (parseFloat (range_min rng))
                              else None);
                  maxBound = (if range_max rng \<noteq> JNull then Some (parseFloat (range_max rng))
                              else None)
              in if belowMin val minBound then False
                 else if aboveMax val maxBound then False
                 else True)
         | None \<Rightarrow> True))"

text \<open>The range tables of 1. constants.js.\<close>

definition mk_range :: "jsval \<Rightarrow> jsval \<Rightarrow> named_range" where
  "mk_range lo hi = \<lparr> range_min = lo, range_max = hi \<rparr>"

definition SEARCH_VOLUME_RANGES :: range_collection where
  "SEARCH_VOLUME_RANGES = map_of
     [(''any'', mk_range JNull JNull),
      (''1-10'', mk_range (JNum 1) (JNum 10)),
      (''11-100'', mk_range (JNum 11) (JNum 100)),
      (''101-1000'', mk_range (JNum 101) (JNum 1000)),
      (''1001-10000'', mk_range (JNum 1001) (JNum 10000)),
      (''10001-100000'', mk_range (JNum 10001) (JNum 100000)),
      (''100001+'', mk_range (JNum 100001) JNull),
      (''custom'', mk_range JNull JNull)]"

definition KEYWORD_DIFFICULTY_RANGES :: range_collection where
  "KEYWORD_DIFFICULTY_RANGES = map_of
     [(''any'', mk_range JNull JNull),
      (''0-14'', mk_range (JNum 0) (JNum 14)),
      (''15-29'', mk_range (JNum 15) (JNum 29)),
      (''30-49'', mk_range (JNum 30) (JNum 49)),
      (''50-69'', mk_range (JNum 50) (JNum 69)),
      (''70-84'', mk_range (JNum 70) (JNum 84)),
      (''85-100'', mk_range (JNum 85) (JNum 100)),
      (''custom'', mk_range JNull JNull)]"

definition CPC_RANGES :: range_collection where
  "CPC_RANGES = map_of
     [(''any'', mk_range JNull JNull),
      (''0.01-0.50'', mk_range (JNum (1 / 100)) (JNum (1 / 2))),
      (''0.51-1.00'', mk_range (JNum (51 / 100)) (JNum 1)),
      (''1.01-2.00'', mk_range (JNum (101 / 100)) (JNum 2)),
      (''2.01-5.00'', mk_range (JNum (201 / 100)) (JNum 5)),
      (''5.01+'', mk_range (JNum (501 / 100)) JNull),
      (''custom'', mk_range JNull JNull)]"

section \<open>Nodes, keywords and filter settings (1. constants.js)\<close>

text \<open>The \<^verbatim>\<open>NodeType\<close> object: the five type tags, passed to every function that needs one.\<close>

record node_type_tags =
  PILLAR :: string
  PARENT :: string
  SUBTOPIC :: string
  CLUSTER :: string
  KEYWORDS :: string

definition NodeType :: node_type_tags where
  "NodeType = \<lparr> PILLAR = ''pillar'', PARENT = ''parent'', SUBTOPIC = ''subtopic'',
                CLUSTER = ''cluster'', KEYWORDS = ''keywords'' \<rparr>"

text \<open>An entry of a cluster's \<^verbatim>\<open>keywords\<close> array.\<close>

record keyword_entry =
  keyword :: jsval
  searchVolume :: jsval
  keywordDifficulty :: jsval
  cpc :: jsval

record metadata =
  centroid_keywords :: "string option"
  tfidf_keywords :: "string option"

text \<open>
  A node of the raw, the canonical or a filtered tree. \<^verbatim>\<open>name\<close> and \<^verbatim>\<open>type\<close> are strings
  or absent; \<^verbatim>\<open>keywords\<close> is an array or absent; an absent \<^verbatim>\<open>children\<close> is the empty array
  (every function below treats the two alike). Array entries are objects: the
  \<^verbatim>\<open>if (!node) continue\<close> guards for null entries have no counterpart here.
\<close>

datatype node = Node
  (node_name: "string option")
  (node_type: "string option")
  (node_size: jsval)
  (node_totalKeywords: jsval)
  (node_totalClusters: jsval)
  (node_averageKD: jsval)
  (node_averageCPC: jsval)
  (node_metadata: "metadata option")
  (node_keywords: "keyword_entry list option")
  (node_children: "node list")

text \<open>The \<^verbatim>\<open>filters\<close> state object (the pillar selection is passed separately).\<close>

record filters =
  nodeTypes :: "string \<rightharpoonup> bool"
  flt_searchVolume :: range_filter
  flt_keywordDifficulty :: range_filter
  flt_averageCPC :: range_filter

text \<open>A search term: the lowercased text and whether it was quoted.\<close>

record search_term =
  term_value :: string
  isExact :: bool

text \<open>\<^verbatim>\<open>filters.nodeTypes[t]\<close> read as a condition; an absent tag is the key \<^verbatim>\<open>undefined\<close>.\<close>

definition typeKey :: "string option \<Rightarrow> string" where
  "typeKey t = (case t of None \<Rightarrow> ''undefined'' | Some s \<Rightarrow> s)"

definition typeSelected :: "filters \<Rightarrow> string \<Rightarrow> bool" where
  "typeSelected flt k = (nodeTypes flt k = Some True)"

section \<open>Text matching (7.2.filterSortUtils.js)\<close>

definition backslash :: char where
  "backslash = CHR 0x5C"

text \<open>The characters \<^verbatim>\<open>escapeRegExp\<close> escapes: the syntax characters of a pattern.\<close>

definition syntaxChars :: string where
  "syntaxChars = ''.*+?^${}()|[]'' @ [backslash]"

text \<open>\<^verbatim>\<open>escapeRegExp(string)\<close>: a backslash in front of every syntax character.\<close>

definition escapeRegExp :: "string \<Rightarrow> string" where
  "escapeRegExp s = concat (map (\<lambda>c. if c \<in> set syntaxChars then [backslash, c] else [c]) s)"

text \<open>
  The patterns the filters build are \<^verbatim>\<open>'\\b' + escapeRegExp(value) + '\\b'\<close>. The fragment
  of the pattern language they use: the word-boundary assertion, an escaped syntax
  character, and a plain character. Any other pattern is outside the fragment (\<open>None\<close>).
\<close>

datatype re_atom = WordBoundary | Literal char

fun parsePattern :: "string \<Rightarrow> re_atom list option" where
  "parsePattern [] = Some []"
| "parsePattern [c] = (if c \<in> set syntaxChars then None else Some [Literal c])"
| "parsePattern (c # d # ds) =
     (if c = backslash then
        (if d = CHR ''b'' then map_option ((#) WordBoundary) (parsePattern ds)
         else if d \<in> set syntaxChars then map_option ((#) (Literal d)) (parsePattern ds)
         else None)
      else if c \<in> set syntaxChars then None
      else map_option ((#) (Literal c)) (parsePattern (d # ds)))"

text \<open>
  Matching at one position: \<open>prev\<close> is the character before the position, \<open>rest\<close> the
  input from it on. A word boundary holds where exactly one side is a word character.
  With the \<^verbatim>\<open>i\<close> flag two characters match when their upper-case forms agree.
\<close>

definition wordBefore :: "char option \<Rightarrow> bool" where
  "wordBefore prev = (case prev of None \<Rightarrow> False | Some c \<Rightarrow> isWordChar c)"

definition wordAfter :: "string \<Rightarrow> bool" where
  "wordAfter rest = (case rest of [] \<Rightarrow> False | c # _ \<Rightarrow> isWordChar c)"

fun matchHere :: "re_atom list \<Rightarrow> char option \<Rightarrow> string \<Rightarrow> bool" where
  "matchHere [] prev rest = True"
| "matchHere (WordBoundary # as) prev rest =
     (wordBefore prev \<noteq> wordAfter rest \<and> matchHere as prev rest)"
| "matchHere (Literal c # as) prev [] = False"
| "matchHere (Literal c # as) prev (d # ds) =
     (toUpperChar c = toUpperChar d \<and> matchHere as (Some d) ds)"

text \<open>\<^verbatim>\<open>test\<close> tries every start position from left to right.\<close>

fun matchFrom :: "re_atom list \<Rightarrow> char option \<Rightarrow> string \<Rightarrow> bool" where
  "matchFrom as prev [] = matchHere as prev []"
| "matchFrom as prev (d # ds) = (matchHere as prev (d # ds) \<or> matchFrom as (Some d) ds)"

text \<open>\<^verbatim>\<open>new RegExp(pattern, 'i').test(text)\<close>\<close>

definition regExpTest :: "string \<Rightarrow> string \<Rightarrow> bool option" where
  "regExpTest pattern text = map_option (\<lambda>as. matchFrom as None text) (parsePattern pattern)"

text \<open>\<^verbatim>\<open>new RegExp('\\b' + escapeRegExp(value) + '\\b', 'i').test(text)\<close>\<close>

definition wordBoundaryTest :: "string \<Rightarrow> string \<Rightarrow> bool" where
  "wordBoundaryTest v text =
     (regExpTest ([backslash, CHR ''b''] @ escapeRegExp v @ [backslash, CHR ''b'']) text = Some True)"

text \<open>
  One search term against one lowercased text:
  \<^verbatim>\<open>termObj.isExact ? text === termObj.value : new RegExp(...).test(text)\<close>.
\<close>

definition termMatches :: "search_term \<Rightarrow> string \<Rightarrow> bool" where
  "termMatches termObj text =
     (if isExact termObj then text = term_value termObj
      else wordBoundaryTest (term_value termObj) text)"

text \<open>
  The \<^verbatim>\<open>isExcluded\<close> helper of both filters: the trimmed, lowercased name contains one of
  the excluded strings; an absent or empty name is never excluded.
\<close>

definition isExcluded :: "string list \<Rightarrow> string option \<Rightarrow> bool" where
  "isExcluded excludedKeywords name =
     (case name of
        None \<Rightarrow> False
      | Some n \<Rightarrow>
          if n = [] then False
          else (let lower = toLowerCase (trim n)
                in list_ex (\<lambda>ex. includesStr lower ex) excludedKeywords))"

text \<open>\<^verbatim>\<open>s ? s.toLowerCase() : ''\<close>\<close>

definition lowerOrEmpty :: "string option \<Rightarrow> string" where
  "lowerOrEmpty s = (case s of None \<Rightarrow> [] | Some t \<Rightarrow> toLowerCase t)"

text \<open>\<^verbatim>\<open>node.metadata?.centroid_keywords\<close> and \<^verbatim>\<open>node.metadata?.tfidf_keywords\<close>\<close>

definition centroidOf :: "metadata option \<Rightarrow> string option" where
  "centroidOf md = (case md of None \<Rightarrow> None | Some m \<Rightarrow> centroid_keywords m)"

definition tfidfOf :: "metadata option \<Rightarrow> string option" where
  "tfidfOf md = (case md of None \<Rightarrow> None | Some m \<Rightarrow> tfidf_keywords m)"

section \<open>Filtering the tree (7.2.filterSortUtils.js)\<close>

type_synonym range_check = "jsval \<Rightarrow> range_filter \<Rightarrow> range_collection \<Rightarrow> bool"

text \<open>
  The body of the loop of \<^verbatim>\<open>filterHierarchicalTreeRecursive_internal\<close>, one definition per
  local variable. \<^verbatim>\<open>passesNumerics\<close>: the node's own three metrics against the range
  filters, only when \<^verbatim>\<open>applyFiltersToNodeNames\<close> is set.
\<close>

definition passesNumerics ::
  "node \<Rightarrow> filters \<Rightarrow> bool \<Rightarrow> range_check \<Rightarrow> range_collection \<Rightarrow> range_collection \<Rightarrow>
   range_collection \<Rightarrow> bool" where
  "passesNumerics node flt applyFiltersToNodeNames checkRangeFunc svRanges kdRanges cpcRanges =
     (if applyFiltersToNodeNames then
        checkRangeFunc (or0 (node_size node)) (flt_searchVolume flt) svRanges \<and>
        checkRangeFunc (or0 (node_averageKD node)) (flt_keywordDifficulty flt) kdRanges \<and>
        checkRangeFunc (or0 (node_averageCPC node)) (flt_averageCPC flt) cpcRanges
      else True)"

text \<open>\<^verbatim>\<open>passesSearch\<close>: some term matches the name or one of the two metadata strings.\<close>

definition passesSearch :: "node \<Rightarrow> search_term list \<Rightarrow> bool \<Rightarrow> bool" where
  "passesSearch node searchTermsArray applyFiltersToNodeNames =
     (if applyFiltersToNodeNames \<and> searchTermsArray \<noteq> [] then
        (let nodeNameLower = lowerOrEmpty (node_name node);
             centroidKeywordsLower = lowerOrEmpty (centroidOf (node_metadata node));
             tfidfKeywordsLower = lowerOrEmpty (tfidfOf (node_metadata node))
         in list_ex (\<lambda>termObj.
              if isExact termObj then
                nodeNameLower = term_value termObj \<or>
                centroidKeywordsLower = term_value termObj \<or>
                tfidfKeywordsLower = term_value termObj
              else
                wordBoundaryTest (term_value termObj) nodeNameLower \<or>
                wordBoundaryTest (term_value termObj) centroidKeywordsLower \<or>
                wordBoundaryTest (term_value termObj) tfidfKeywordsLower) searchTermsArray)
      else True)"

text \<open>The predicate of \<^verbatim>\<open>node.keywords.filter(kw => ...)\<close>.\<close>

definition keywordPasses ::
  "keyword_entry \<Rightarrow> filters \<Rightarrow> search_term list \<Rightarrow> range_check \<Rightarrow> range_collection \<Rightarrow>
   range_collection \<Rightarrow> range_collection \<Rightarrow> string list \<Rightarrow> bool" where
  "keywordPasses kw flt searchTermsArray checkRangeFunc svRanges kdRanges cpcRanges excludedKeywords =
     (case keyword kw of
        JStr k \<Rightarrow>
          if isExcluded excludedKeywords (Some k) then False
          else
            (let kwTextLower = toLowerCase k;
                 kwSearchMatch = (if searchTermsArray \<noteq> []
                                  then list_ex (\<lambda>termObj. termMatches termObj kwTextLower) searchTermsArray
                                  else True);
                 kwNumericMatch =
                   (checkRangeFunc (or0 (searchVolume kw)) (flt_searchVolume flt) svRanges \<and>
                    checkRangeFunc (or0 (keywordDifficulty kw)) (flt_keywordDifficulty flt) kdRanges \<and>
                    checkRangeFunc (or0 (cpc kw)) (flt_averageCPC flt) cpcRanges)
             in kwSearchMatch \<and> kwNumericMatch)
      | _ \<Rightarrow> False)"

text \<open>\<^verbatim>\<open>filteredKeywords\<close> and \<^verbatim>\<open>clusterHasMatchingKeywords\<close>, as the pair the code computes.\<close>

definition filteredKeywordsOf ::
  "node \<Rightarrow> filters \<Rightarrow> search_term list \<Rightarrow> node_type_tags \<Rightarrow> range_check \<Rightarrow> range_collection \<Rightarrow>
   range_collection \<Rightarrow> range_collection \<Rightarrow> string list \<Rightarrow> keyword_entry list \<times> bool" where
  "filteredKeywordsOf node flt searchTermsArray NT checkRangeFunc svRanges kdRanges cpcRanges excludedKeywords =
     (case node_keywords node of
        Some kws \<Rightarrow>
          if node_type node = Some (CLUSTER NT) then
            (if typeSelected flt (KEYWORDS NT) \<and> kws \<noteq> [] then
               (let filteredKeywords =
                      filter (\<lambda>kw. keywordPasses kw flt searchTermsArray checkRangeFunc
                                      svRanges kdRanges cpcRanges excludedKeywords) kws
                in (filteredKeywords, filteredKeywords \<noteq> []))
             else ([], False))
          else ([], False)
      | None \<Rightarrow> ([], False))"

text \<open>The inclusion decision: the first rule that applies wins.\<close>

definition includeNode ::
  "node \<Rightarrow> node list \<Rightarrow> bool \<Rightarrow> bool \<Rightarrow> filters \<Rightarrow> node_type_tags \<Rightarrow> bool" where
  "includeNode node visibleChildren selfMatchesContentFilters clusterHasMatchingKeywords flt NT =
     (if visibleChildren \<noteq> [] then True
      else if typeSelected flt (typeKey (node_type node)) \<and> selfMatchesContentFilters then True
      else if node_type node = Some (CLUSTER NT) \<and> typeSelected flt (KEYWORDS NT) \<and>
              clusterHasMatchingKeywords then True
      else False)"

text \<open>\<^verbatim>\<open>{ ...node, children: visibleChildren, keywords: filteredKeywords }\<close>\<close>

definition withChildrenAndKeywords :: "node \<Rightarrow> node list \<Rightarrow> keyword_entry list \<Rightarrow> node" where
  "withChildrenAndKeywords node visibleChildren filteredKeywords =
     Node (node_name node) (node_type node) (node_size node) (node_totalKeywords node)
          (node_totalClusters node) (node_averageKD node) (node_averageCPC node)
          (node_metadata node) (Some filteredKeywords) visibleChildren"

text \<open>What one iteration pushes onto \<^verbatim>\<open>currentLevelVisibleNodes\<close>, given the filtered children.\<close>

definition visitNode ::
  "node \<Rightarrow> node list \<Rightarrow> filters \<Rightarrow> search_term list \<Rightarrow> node_type_tags \<Rightarrow> bool \<Rightarrow> range_check \<Rightarrow>
   range_collection \<Rightarrow> range_collection \<Rightarrow> range_collection \<Rightarrow> string list \<Rightarrow> node list" where
  "visitNode node visibleChildren flt searchTermsArray NT applyFiltersToNodeNames checkRangeFunc
     svRanges kdRanges cpcRanges excludedKeywords =
     (let selfMatchesContentFilters =
            (passesNumerics node flt applyFiltersToNodeNames checkRangeFunc svRanges kdRanges cpcRanges \<and>
             passesSearch node searchTermsArray applyFiltersToNodeNames);
          (filteredKeywords, clusterHasMatchingKeywords) =
            filteredKeywordsOf node flt searchTermsArray NT checkRangeFunc
              svRanges kdRanges cpcRanges excludedKeywords
      in if includeNode node visibleChildren selfMatchesContentFilters clusterHasMatchingKeywords flt NT
         then [withChildrenAndKeywords node visibleChildren filteredKeywords]
         else [])"

lemma size_node_children:
  "size_list size (node_children n) < size n"
  by (cases n) simp

text \<open>
  \<^verbatim>\<open>filterHierarchicalTreeRecursive_internal\<close>: a node whose name is excluded is skipped
  before its children are looked at (only when \<^verbatim>\<open>applyFiltersToNodeNames\<close> is set);
  otherwise the children are filtered first and the node is visited with the result.
\<close>

function filterHierarchicalTreeRecursive_internal ::
  "node list \<Rightarrow> filters \<Rightarrow> search_term list \<Rightarrow> node_type_tags \<Rightarrow> bool \<Rightarrow> range_check \<Rightarrow>
   range_collection \<Rightarrow> range_collection \<Rightarrow> range_collection \<Rightarrow> string list \<Rightarrow> node list" where
  "filterHierarchicalTreeRecursive_internal [] flt searchTermsArray NT applyFiltersToNodeNames
     checkRangeFunc svRanges kdRanges cpcRanges excludedKeywords = []"
| "filterHierarchicalTreeRecursive_internal (node # nodesToFilter) flt searchTermsArray NT
     applyFiltersToNodeNames checkRangeFunc svRanges kdRanges cpcRanges excludedKeywords =
     (if applyFiltersToNodeNames \<and> isExcluded excludedKeywords (node_name node) then
        filterHierarchicalTreeRecursive_internal nodesToFilter flt searchTermsArray NT
          applyFiltersToNodeNames checkRangeFunc svRanges kdRanges cpcRanges excludedKeywords
      else
        (let visibleChildren =
               filterHierarchicalTreeRecursive_internal (node_children node) flt searchTermsArray NT
                 applyFiltersToNodeNames checkRangeFunc svRanges kdRanges cpcRanges excludedKeywords
         in visitNode node visibleChildren flt searchTermsArray NT applyFiltersToNodeNames
              checkRangeFunc svRanges kdRanges cpcRanges excludedKeywords @
            filterHierarchicalTreeRecursive_internal nodesToFilter flt searchTermsArray NT
              applyFiltersToNodeNames checkRangeFunc svRanges kdRanges cpcRanges excludedKeywords))"
  by pat_completeness auto

termination
proof (relation "measure (\<lambda>(nodes, _). size_list size nodes)")
  show "wf (measure (\<lambda>(nodes, _). size_list size nodes))"
    by simp
next
  fix node :: node and nodesToFilter :: "node list" and rest :: "filters \<times> _"
  have "size_list size (node_children node) < size_list size (node # nodesToFilter)"
    using size_node_children [of node] by simp
  then show "((node_children node, rest), (node # nodesToFilter, rest))
               \<in> measure (\<lambda>(nodes, _). size_list size nodes)"
    by simp
qed simp_all

text \<open>The exported wrapper passes \<^verbatim>\<open>checkRangeSelectionFilter_internal\<close> as the range check.\<close>

definition filterHierarchicalTreeRecursive ::
  "node list \<Rightarrow> filters \<Rightarrow> search_term list \<Rightarrow> node_type_tags \<Rightarrow> bool \<Rightarrow>
   range_collection \<Rightarrow> range_collection \<Rightarrow> range_collection \<Rightarrow> string list \<Rightarrow> node list" where
  "filterHierarchicalTreeRecursive nodesToFilter flt searchTermsArray NT applyFiltersToNodeNames
     svRanges kdRanges cpcRanges excludedKeywords =
     filterHierarchicalTreeRecursive_internal nodesToFilter flt searchTermsArray NT
       applyFiltersToNodeNames checkRangeSelectionFilter_internal
       svRanges kdRanges cpcRanges excludedKeywords"

section \<open>Filtering a flat list (7.2.filterSortUtils.js)\<close>

text \<open>
  An entry of a flat list, as \<^verbatim>\<open>extractAllNodesAndKeywords\<close> builds it and as the flat
  filter and the CSV export read it. The random \<^verbatim>\<open>id\<close> is left out. The last three
  fields are absent from the entries the extraction builds; the flat filter reads
  \<^verbatim>\<open>metadata\<close>, the export reads \<^verbatim>\<open>keyword\<close> and \<^verbatim>\<open>keywords\<close>.
\<close>

record flat_record =
  item_name :: "string option"
  item_type :: "string option"
  item_searchVolume :: jsval
  item_keywordDifficulty :: jsval
  item_cpc :: jsval
  item_totalKeywords :: jsval
  item_totalClusters :: jsval
  item_fullHierarchyPath :: "string option"
  item_metadata :: "metadata option"
  item_keyword :: jsval
  item_keywords :: "keyword_entry list option"

text \<open>The predicate of the pillar-scoping \<^verbatim>\<open>sourceList.filter(item => ...)\<close>.\<close>

definition pillarKeeps :: "flat_record \<Rightarrow> string \<Rightarrow> node_type_tags \<Rightarrow> bool" where
  "pillarKeeps item selectedPillar NT =
     (case item_fullHierarchyPath item of
        None \<Rightarrow> item_type item = Some (PILLAR NT) \<and> item_name item = Some selectedPillar
      | Some path \<Rightarrow>
          if path = [] then item_type item = Some (PILLAR NT) \<and> item_name item = Some selectedPillar
          else if item_type item = Some (PILLAR NT) then item_name item = Some selectedPillar
          else startsWith path (selectedPillar @ '' > ''))"

text \<open>\<^verbatim>\<open>pillarFilteredList\<close>: the first stage. An absent \<^verbatim>\<open>selectedPillar\<close> is the empty string.\<close>

definition pillarFilteredList :: "flat_record list \<Rightarrow> string \<Rightarrow> node_type_tags \<Rightarrow> flat_record list" where
  "pillarFilteredList sourceList selectedPillar NT =
     (if selectedPillar \<noteq> ''all'' \<and> selectedPillar \<noteq> [] then
        filter (\<lambda>item. pillarKeeps item selectedPillar NT) sourceList
      else sourceList)"

text \<open>The predicate of the numeric stage.\<close>

definition numericKeeps ::
  "flat_record \<Rightarrow> filters \<Rightarrow> range_check \<Rightarrow> range_collection \<Rightarrow> range_collection \<Rightarrow>
   range_collection \<Rightarrow> bool" where
  "numericKeeps item flt rangeCheckFunc svRanges kdRanges cpcRanges =
     (rangeCheckFunc (or0 (item_searchVolume item)) (flt_searchVolume flt) svRanges \<and>
      rangeCheckFunc (or0 (item_keywordDifficulty item)) (flt_keywordDifficulty flt) kdRanges \<and>
      rangeCheckFunc (or0 (item_cpc item)) (flt_averageCPC flt) cpcRanges)"

text \<open>The predicate of the search stage: the name first, then the metadata strings unless
  keywords are being listed.\<close>

definition searchKeeps ::
  "flat_record \<Rightarrow> search_term list \<Rightarrow> string \<Rightarrow> node_type_tags \<Rightarrow> bool" where
  "searchKeeps item searchTermsArray singleSelectedType NT =
     (let itemNameLower = lowerOrEmpty (item_name item);
          passesSearch = list_ex (\<lambda>termObj. termMatches termObj itemNameLower) searchTermsArray
      in if \<not> passesSearch \<and> singleSelectedType \<noteq> KEYWORDS NT \<and> item_metadata item \<noteq> None then
           (let centroidKeywordsLower = lowerOrEmpty (centroidOf (item_metadata item));
                tfidfKeywordsLower = lowerOrEmpty (tfidfOf (item_metadata item))
            in list_ex (\<lambda>termObj.
                 if isExact termObj then
                   centroidKeywordsLower = term_value termObj \<or> tfidfKeywordsLower = term_value termObj
                 else
                   wordBoundaryTest (term_value termObj) centroidKeywordsLower \<or>
                   wordBoundaryTest (term_value termObj) tfidfKeywordsLower) searchTermsArray)
         else passesSearch)"

text \<open>\<^verbatim>\<open>filterFlatListByType_internal\<close>: the four stages in sequence.\<close>

definition filterFlatListByType_internal ::
  "flat_record list \<Rightarrow> filters \<Rightarrow> string \<Rightarrow> search_term list \<Rightarrow> string \<Rightarrow> node_type_tags \<Rightarrow>
   range_check \<Rightarrow> range_collection \<Rightarrow> range_collection \<Rightarrow> range_collection \<Rightarrow> string list \<Rightarrow>
   flat_record list" where
  "filterFlatListByType_internal sourceList flt selectedPillar searchTermsArray singleSelectedType NT
     rangeCheckFunc svRanges kdRanges cpcRanges excludedKeywords =
     (let numericFilteredList =
            filter (\<lambda>item. numericKeeps item flt rangeCheckFunc svRanges kdRanges cpcRanges)
              (pillarFilteredList sourceList selectedPillar NT);
          exclusionFilteredList =
            filter (\<lambda>item. \<not> isExcluded excludedKeywords (item_name item)) numericFilteredList;
          searchFilteredList =
            (if searchTermsArray \<noteq> [] then
               filter (\<lambda>item. searchKeeps item searchTermsArray singleSelectedType NT)
                 exclusionFilteredList
             else exclusionFilteredList)
      in searchFilteredList)"

section \<open>CSV export (7.4.csvExportUtils.js)\<close>

text \<open>
  How a number prints is the host's business; the conversion is a parameter of the two
  export functions. \<^verbatim>\<open>join\<close> prints undefined and null as the empty string.
\<close>

fun joinText :: "(real \<Rightarrow> string) \<Rightarrow> jsval \<Rightarrow> string" where
  "joinText numToStr (JStr s) = s"
| "joinText numToStr (JNum r) = numToStr r"
| "joinText numToStr (JBool b) = (if b then ''true'' else ''false'')"
| "joinText numToStr JUndefined = []"
| "joinText numToStr JNull = []"

text \<open>\<^verbatim>\<open>v || ''\<close>\<close>

definition orEmpty :: "jsval \<Rightarrow> jsval" where
  "orEmpty v = (if truthy v then v else JStr [])"

definition nameOrEmpty :: "string option \<Rightarrow> jsval" where
  "nameOrEmpty n = (case n of None \<Rightarrow> JStr [] | Some s \<Rightarrow> JStr s)"

text \<open>\<^verbatim>\<open>flatData[key] = v\<close> on an object whose keys keep their insertion order.\<close>

fun setField :: "string \<Rightarrow> jsval \<Rightarrow> (string \<times> jsval) list \<Rightarrow> (string \<times> jsval) list" where
  "setField k v [] = [(k, v)]"
| "setField k v ((k', v') # kvs) = (if k = k' then (k, v) # kvs else (k', v') # setField k v kvs)"

text \<open>\<^verbatim>\<open>flattenNodeData(node)\<close>: the type tags compared with are the literals of the source.\<close>

definition flattenNodeData :: "(real \<Rightarrow> string) \<Rightarrow> flat_record \<Rightarrow> (string \<times> jsval) list" where
  "flattenNodeData numToStr node =
     (let flatData = [(''Keyword'', nameOrEmpty (item_name node)),
                      (''Search Volume'', orEmpty (item_searchVolume node)),
                      (''Keyword Difficulty'', orEmpty (item_keywordDifficulty node)),
                      (''CPC (USD)'', orEmpty (item_cpc node))];
          flatData1 = (if item_type node = Some ''KEYWORDS'' \<and> truthy (item_keyword node)
                       then setField ''Keyword'' (item_keyword node) flatData else flatData)
      in case item_keywords node of
           Some kws \<Rightarrow>
             if item_type node = Some ''CLUSTER'' then
               setField ''Keywords'' (JStr (join ''; '' (map (\<lambda>k. joinText numToStr (keyword k)) kws)))
                 (setField ''Keyword Count'' (JNum (real (length kws))) flatData1)
             else flatData1
         | None \<Rightarrow> flatData1)"

text \<open>A cell of a data row: a string holding a comma or a double quote is quoted.\<close>

definition csvCell :: "(real \<Rightarrow> string) \<Rightarrow> jsval option \<Rightarrow> string" where
  "csvCell numToStr v =
     (case v of
        None \<Rightarrow> []
      | Some (JStr s) \<Rightarrow>
          if CHR '','' \<in> set s \<or> CHR 0x22 \<in> set s then
            [CHR 0x22] @ concat (map (\<lambda>c. if c = CHR 0x22 then [CHR 0x22, CHR 0x22] else [c]) s) @ [CHR 0x22]
          else s
      | Some w \<Rightarrow> joinText numToStr w)"

text \<open>\<^verbatim>\<open>convertToCSV(data)\<close>: the header row comes from the first item alone.\<close>

definition convertToCSV :: "(real \<Rightarrow> string) \<Rightarrow> flat_record list \<Rightarrow> string" where
  "convertToCSV numToStr data =
     (case data of
        [] \<Rightarrow> []
      | first # _ \<Rightarrow>
          (let headers = map fst (flattenNodeData numToStr first);
               csvRows = join '','' headers #
                 map (\<lambda>item.
                        let flatItem = flattenNodeData numToStr item
                        in join '','' (map (\<lambda>header. csvCell numToStr (map_of flatItem header)) headers))
                     data
           in join [CHR 0x0A] csvRows))"

section \<open>Normalisation (7.1. dataProcessingUtils.js)\<close>

text \<open>
  \<^verbatim>\<open>seenKeywords\<close> is a mutable \<^verbatim>\<open>Set\<close> shared by the recursive calls; here each function
  takes the set and returns it updated. The side-effecting
  \<^verbatim>\<open>node.keywords.filter(kw => ...)\<close> of \<^verbatim>\<open>transformNodeForHierarchicalView\<close>:
\<close>

fun uniqueKeywords :: "keyword_entry list \<Rightarrow> string set \<Rightarrow> keyword_entry list \<times> string set" where
  "uniqueKeywords [] seenKeywords = ([], seenKeywords)"
| "uniqueKeywords (kw # kws) seenKeywords =
     (case keyword kw of
        JStr k \<Rightarrow>
          if k \<notin> seenKeywords then
            (let (kept, seen') = uniqueKeywords kws (insert k seenKeywords) in (kw # kept, seen'))
          else uniqueKeywords kws seenKeywords
      | _ \<Rightarrow> uniqueKeywords kws seenKeywords)"

text \<open>
  \<^verbatim>\<open>transformNodeForHierarchicalView(node, seenKeywords)\<close>, with the
  \<^verbatim>\<open>node.children.map(child => ...)\<close> as the second function.
\<close>

fun transformNodeForHierarchicalView :: "node \<Rightarrow> string set \<Rightarrow> node \<times> string set"
  and transformChildren :: "node list \<Rightarrow> string set \<Rightarrow> node list \<times> string set" where
  "transformNodeForHierarchicalView (Node nm ty sz totalKws totalCls avgKD avgCPC md keywords children)
       seenKeywords =
     (let (keywords', seen1) =
            (case keywords of
               None \<Rightarrow> (None, seenKeywords)
             | Some kws \<Rightarrow> (let (kept, s) = uniqueKeywords kws seenKeywords in (Some kept, s)));
          (children', seen2) = transformChildren children seen1
      in (Node nm ty (or0 sz) (or0 totalKws) (or0 totalCls) (or0 avgKD) (or0 avgCPC) md
            keywords' children', seen2))"
| "transformChildren [] seenKeywords = ([], seenKeywords)"
| "transformChildren (child # children) seenKeywords =
     (let (child', seen1) = transformNodeForHierarchicalView child seenKeywords;
          (children', seen2) = transformChildren children seen1
      in (child' # children', seen2))"

text \<open>The five lists \<^verbatim>\<open>extractAllNodesAndKeywords\<close> returns.\<close>

record extracted =
  keywordsList :: "flat_record list"
  pillarsList :: "flat_record list"
  parentsList :: "flat_record list"
  subtopicsList :: "flat_record list"
  clustersList :: "flat_record list"

definition noneExtracted :: extracted where
  "noneExtracted = \<lparr> keywordsList = [], pillarsList = [], parentsList = [], subtopicsList = [],
                     clustersList = [] \<rparr>"

text \<open>\<^verbatim>\<open>concat\<close> on each of the five lists.\<close>

definition concatExtracted :: "extracted \<Rightarrow> extracted \<Rightarrow> extracted" where
  "concatExtracted a b =
     \<lparr> keywordsList = keywordsList a @ keywordsList b,
       pillarsList = pillarsList a @ pillarsList b,
       parentsList = parentsList a @ parentsList b,
       subtopicsList = subtopicsList a @ subtopicsList b,
       clustersList = clustersList a @ clustersList b \<rparr>"

text \<open>\<^verbatim>\<open>commonNodeData\<close>\<close>

definition commonNodeData :: "node \<Rightarrow> string \<Rightarrow> flat_record" where
  "commonNodeData node fullPathString =
     \<lparr> item_name = node_name node, item_type = node_type node,
       item_searchVolume = or0 (node_size node),
       item_keywordDifficulty = or0 (node_averageKD node),
       item_cpc = or0 (node_averageCPC node),
       item_totalKeywords = or0 (node_totalKeywords node),
       item_totalClusters = or0 (node_totalClusters node),
       item_fullHierarchyPath = Some fullPathString,
       item_metadata = None, item_keyword = JUndefined, item_keywords = None \<rparr>"

text \<open>The record pushed for a keyword that has not been seen.\<close>

definition keywordRecord ::
  "keyword_entry \<Rightarrow> string \<Rightarrow> node_type_tags \<Rightarrow> string list \<Rightarrow> string \<Rightarrow> flat_record" where
  "keywordRecord kw k NT newPath fullPathString =
     \<lparr> item_name = Some k, item_type = Some (KEYWORDS NT),
       item_searchVolume = or0 (searchVolume kw),
       item_keywordDifficulty = or0 (keywordDifficulty kw),
       item_cpc = or0 (cpc kw),
       item_totalKeywords = JUndefined, item_totalClusters = JUndefined,
       item_fullHierarchyPath = Some (if newPath \<noteq> [] then fullPathString @ '' > '' @ k else k),
       item_metadata = None, item_keyword = JUndefined, item_keywords = None \<rparr>"

text \<open>The \<^verbatim>\<open>node.keywords.forEach(kw => ...)\<close> of a cluster.\<close>

fun extractKeywords ::
  "keyword_entry list \<Rightarrow> node_type_tags \<Rightarrow> string list \<Rightarrow> string \<Rightarrow> string set \<Rightarrow>
   flat_record list \<times> string set" where
  "extractKeywords [] NT newPath fullPathString seenKeywords = ([], seenKeywords)"
| "extractKeywords (kw # kws) NT newPath fullPathString seenKeywords =
     (case keyword kw of
        JStr k \<Rightarrow>
          if k \<notin> seenKeywords then
            (let (recs, seen') = extractKeywords kws NT newPath fullPathString (insert k seenKeywords)
             in (keywordRecord kw k NT newPath fullPathString # recs, seen'))
          else extractKeywords kws NT newPath fullPathString seenKeywords
      | _ \<Rightarrow> extractKeywords kws NT newPath fullPathString seenKeywords)"

text \<open>The \<^verbatim>\<open>switch (node.type)\<close>: what the node itself adds to the five lists.\<close>

definition ownExtracted ::
  "node \<Rightarrow> node_type_tags \<Rightarrow> string list \<Rightarrow> string \<Rightarrow> string set \<Rightarrow> extracted \<times> string set" where
  "ownExtracted node NT newPath fullPathString seenKeywords =
     (let common = commonNodeData node fullPathString in
      if node_type node = Some (PILLAR NT) then (noneExtracted\<lparr>pillarsList := [common]\<rparr>, seenKeywords)
      else if node_type node = Some (PARENT NT) then (noneExtracted\<lparr>parentsList := [common]\<rparr>, seenKeywords)
      else if node_type node = Some (SUBTOPIC NT) then (noneExtracted\<lparr>subtopicsList := [common]\<rparr>, seenKeywords)
      else if node_type node = Some (CLUSTER NT) then
        (case node_keywords node of
           Some kws \<Rightarrow>
             (let (recs, seen') = extractKeywords kws NT newPath fullPathString seenKeywords
              in (noneExtracted\<lparr>clustersList := [common], keywordsList := recs\<rparr>, seen'))
         | None \<Rightarrow> (noneExtracted\<lparr>clustersList := [common]\<rparr>, seenKeywords))
      else (noneExtracted, seenKeywords))"

text \<open>
  \<^verbatim>\<open>extractAllNodesAndKeywords(nodes, NodeType, currentPath, level, seenKeywords)\<close>. A node
  without a type is skipped together with its children. \<^verbatim>\<open>level\<close> only feeds the ids.
\<close>

function extractAllNodesAndKeywords ::
  "node list \<Rightarrow> node_type_tags \<Rightarrow> string list \<Rightarrow> nat \<Rightarrow> string set \<Rightarrow> extracted \<times> string set" where
  "extractAllNodesAndKeywords [] NT currentPath level seenKeywords = (noneExtracted, seenKeywords)"
| "extractAllNodesAndKeywords (node # nodes) NT currentPath level seenKeywords =
     (if falsy_str (node_type node) then
        extractAllNodesAndKeywords nodes NT currentPath level seenKeywords
      else
        (let newPath = (case node_name node of
                          None \<Rightarrow> currentPath
                        | Some n \<Rightarrow> if n = [] then currentPath else currentPath @ [n]);
             fullPathString = join '' > '' newPath;
             (own, seen1) = ownExtracted node NT newPath fullPathString seenKeywords;
             (nestedResults, seen2) =
               extractAllNodesAndKeywords (node_children node) NT newPath (level + 1) seen1;
             (later, seen3) = extractAllNodesAndKeywords nodes NT currentPath level seen2
         in (concatExtracted (concatExtracted own nestedResults) later, seen3)))"
  by pat_completeness auto

termination
proof (relation "measure (\<lambda>(nodes, _). size_list size nodes)")
  show "wf (measure (\<lambda>(nodes, _). size_list size nodes))"
    by simp
next
  fix node :: node and nodes :: "node list"
    and r1 r2 :: "node_type_tags \<times> string list \<times> nat \<times> string set"
  have "size_list size (node_children node) < size_list size (node # nodes)"
    using size_node_children [of node] by simp
  then show "((node_children node, r1), (node # nodes, r2))
               \<in> measure (\<lambda>(nodes, _). size_list size nodes)"
    by simp
qed simp_all

text \<open>The result of a normalisation pass.\<close>

record dataset =
  hierarchicalData :: "node list"
  allPillarsData :: "flat_record list"
  allParentsData :: "flat_record list"
  allSubtopicsData :: "flat_record list"
  allClustersData :: "flat_record list"
  allKeywordsData :: "flat_record list"

text \<open>
  \<^verbatim>\<open>processSampleDataForApp(sampleDataInput, NodeType)\<close>: every top-level node is
  transformed with a set of its own (\<^verbatim>\<open>new Set()\<close> inside the \<^verbatim>\<open>map\<close> callback); the
  extraction then runs over the transformed nodes with one set.
\<close>

definition processSampleDataForApp :: "node list \<Rightarrow> node_type_tags \<Rightarrow> dataset" where
  "processSampleDataForApp sampleDataInput NT =
     (let hierarchicalData = map (\<lambda>node. fst (transformNodeForHierarchicalView node {})) sampleDataInput;
          extractedSample = fst (extractAllNodesAndKeywords hierarchicalData NT [] 0 {})
      in \<lparr> hierarchicalData = hierarchicalData,
           allPillarsData = pillarsList extractedSample,
           allParentsData = parentsList extractedSample,
           allSubtopicsData = subtopicsList extractedSample,
           allClustersData = clustersList extractedSample,
           allKeywordsData = keywordsList extractedSample \<rparr>)"

text \<open>
  \<^verbatim>\<open>processRawDataFromFile(fileContents, NodeType)\<close>. The argument is what
  \<^verbatim>\<open>JSON.parse(fileContents)\<close> gave: the message of the exception it threw, or the
  document's \<^verbatim>\<open>data\<close> field (absent: the empty array). The same two steps follow.
\<close>

definition processRawDataFromFile ::
  "string + node list option \<Rightarrow> node_type_tags \<Rightarrow> string + dataset" where
  "processRawDataFromFile parsed NT =
     (case parsed of
        Inl message \<Rightarrow> Inl (''Error parsing JSON file: '' @ message)
      | Inr parsedData \<Rightarrow>
          (let rawDataArray = (case parsedData of None \<Rightarrow> [] | Some d \<Rightarrow> d);
               hierarchicalData =
                 map (\<lambda>node. fst (transformNodeForHierarchicalView node {})) rawDataArray;
               extracted = fst (extractAllNodesAndKeywords hierarchicalData NT [] 0 {})
           in Inr \<lparr> hierarchicalData = hierarchicalData,
                    allPillarsData = pillarsList extracted,
                    allParentsData = parentsList extracted,
                    allSubtopicsData = subtopicsList extracted,
                    allClustersData = clustersList extracted,
                    allKeywordsData = keywordsList extracted \<rparr>))"

section \<open>Aggregated metrics (7.1. dataProcessingUtils.js)\<close>

text \<open>The \<^verbatim>\<open>metrics\<close> object: totals, the raw accumulators, and the two averages.\<close>

record metrics =
  totalSearchVolume :: real
  totalKeywords :: real
  totalClusters :: real
  weightedKDSum :: real
  totalVolumeForKD :: real
  itemsWithKD :: real
  simpleKDSum :: real
  weightedCPCSum :: real
  totalVolumeForCPC :: real
  itemsWithCPC :: real
  simpleCPCSum :: real
  averageKD :: real
  averageCPC :: real

definition initialMetrics :: metrics where
  "initialMetrics =
     \<lparr> totalSearchVolume = 0, totalKeywords = 0, totalClusters = 0,
       weightedKDSum = 0, totalVolumeForKD = 0, itemsWithKD = 0, simpleKDSum = 0,
       weightedCPCSum = 0, totalVolumeForCPC = 0, itemsWithCPC = 0, simpleCPCSum = 0,
       averageKD = 0, averageCPC = 0 \<rparr>"

text \<open>\<^verbatim>\<open>typeof v === 'number' ? v : null\<close>\<close>

fun numberOrNull :: "jsval \<Rightarrow> real option" where
  "numberOrNull (JNum r) = Some r"
| "numberOrNull v = None"

text \<open>\<^verbatim>\<open>typeof v === 'number' ? v : 0\<close>\<close>

definition numberOrZero :: "jsval \<Rightarrow> real" where
  "numberOrZero v = (case numberOrNull v of Some r \<Rightarrow> r | None \<Rightarrow> 0)"

text \<open>The body of \<^verbatim>\<open>node.keywords.forEach(kw => ...)\<close>.\<close>

definition addKeyword :: "metrics \<Rightarrow> keyword_entry \<Rightarrow> metrics" where
  "addKeyword m kw =
     (let sv = numberOrZero (searchVolume kw);
          kd = numberOrNull (keywordDifficulty kw);
          cp = numberOrNull (cpc kw);
          m1 = m\<lparr> totalKeywords := totalKeywords m + 1,
                  totalSearchVolume := totalSearchVolume m + sv \<rparr>;
          m2 = (case kd of
                  Some d \<Rightarrow> m1\<lparr> weightedKDSum := weightedKDSum m1 + d * sv,
                                 totalVolumeForKD := totalVolumeForKD m1 + sv,
                                 simpleKDSum := simpleKDSum m1 + d,
                                 itemsWithKD := itemsWithKD m1 + 1 \<rparr>
                | None \<Rightarrow> m1)
      in case cp of
           Some c \<Rightarrow> m2\<lparr> weightedCPCSum := weightedCPCSum m2 + c * sv,
                          totalVolumeForCPC := totalVolumeForCPC m2 + sv,
                          simpleCPCSum := simpleCPCSum m2 + c,
                          itemsWithCPC := itemsWithCPC m2 + 1 \<rparr>
         | None \<Rightarrow> m2)"

text \<open>The body of \<^verbatim>\<open>node.children.forEach(childNode => ...)\<close>, after the recursive call:
  the child's totals and accumulators are added, its averages are not read.\<close>

definition addChildMetrics :: "metrics \<Rightarrow> metrics \<Rightarrow> metrics" where
  "addChildMetrics m childMetrics =
     m\<lparr> totalSearchVolume := totalSearchVolume m + totalSearchVolume childMetrics,
        totalKeywords := totalKeywords m + totalKeywords childMetrics,
        totalClusters := totalClusters m + totalClusters childMetrics,
        weightedKDSum := weightedKDSum m + weightedKDSum childMetrics,
        totalVolumeForKD := totalVolumeForKD m + totalVolumeForKD childMetrics,
        simpleKDSum := simpleKDSum m + simpleKDSum childMetrics,
        itemsWithKD := itemsWithKD m + itemsWithKD childMetrics,
        weightedCPCSum := weightedCPCSum m + weightedCPCSum childMetrics,
        totalVolumeForCPC := totalVolumeForCPC m + totalVolumeForCPC childMetrics,
        simpleCPCSum := simpleCPCSum m + simpleCPCSum childMetrics,
        itemsWithCPC := itemsWithCPC m + itemsWithCPC childMetrics \<rparr>"

text \<open>The two \<^verbatim>\<open>if / else if / else\<close> chains that set the averages.\<close>

definition setAverages :: "metrics \<Rightarrow> metrics" where
  "setAverages m =
     m\<lparr> averageKD := (if totalVolumeForKD m > 0 then weightedKDSum m / totalVolumeForKD m
                      else if itemsWithKD m > 0 then simpleKDSum m / itemsWithKD m
                      else 0),
        averageCPC := (if totalVolumeForCPC m > 0 then weightedCPCSum m / totalVolumeForCPC m
                       else if itemsWithCPC m > 0 then simpleCPCSum m / itemsWithCPC m
                       else 0) \<rparr>"

text \<open>The metrics of the node itself, before its children are added.\<close>

definition ownMetrics :: "node \<Rightarrow> node_type_tags \<Rightarrow> metrics" where
  "ownMetrics node NT =
     (let m0 = (if node_type node = Some (CLUSTER NT) then initialMetrics\<lparr> totalClusters := 1 \<rparr>
                else initialMetrics)
      in case node_keywords node of
           Some kws \<Rightarrow> if node_type node = Some (CLUSTER NT) \<and> kws \<noteq> [] then foldl addKeyword m0 kws
                        else m0
         | None \<Rightarrow> m0)"

text \<open>
  The cache is a \<^verbatim>\<open>WeakMap\<close> from node objects to their metrics, or absent. The model keys
  it by the node's value: a node object met twice has one value, and the function is
  deterministic, so a hit on an equal node returns what the object's own entry would.
\<close>

type_synonym metrics_cache = "(node \<rightharpoonup> metrics) option"

definition cacheGet :: "metrics_cache \<Rightarrow> node \<Rightarrow> metrics option" where
  "cacheGet cache node = (case cache of None \<Rightarrow> None | Some c \<Rightarrow> c node)"

definition cacheSet :: "metrics_cache \<Rightarrow> node \<Rightarrow> metrics \<Rightarrow> metrics_cache" where
  "cacheSet cache node m = (case cache of None \<Rightarrow> None | Some c \<Rightarrow> Some (c(node \<mapsto> m)))"

text \<open>
  \<^verbatim>\<open>calculateDynamicNodeMetrics(node, NodeType, calculateMetricsRecursively, cache)\<close>, where
  \<^verbatim>\<open>calculateMetricsRecursively\<close> is the function itself. The result is the metrics object
  and the cache as the call leaves it. The second function is the loop over the children.
\<close>

function calculateDynamicNodeMetrics ::
    "node \<Rightarrow> node_type_tags \<Rightarrow> metrics_cache \<Rightarrow> metrics \<times> metrics_cache"
  and addChildren ::
    "node list \<Rightarrow> node_type_tags \<Rightarrow> metrics \<Rightarrow> metrics_cache \<Rightarrow> metrics \<times> metrics_cache" where
  "calculateDynamicNodeMetrics node NT cache =
     (case cacheGet cache node of
        Some cached \<Rightarrow> (cached, cache)
      | None \<Rightarrow>
          (let (summed, cache') = addChildren (node_children node) NT (ownMetrics node NT) cache;
               result = setAverages summed
           in (result, cacheSet cache' node result)))"
| "addChildren [] NT m cache = (m, cache)"
| "addChildren (childNode # children) NT m cache =
     (let (childMetrics, cache') = calculateDynamicNodeMetrics childNode NT cache
      in addChildren children NT (addChildMetrics m childMetrics) cache')"
  by pat_completeness auto

termination
proof (relation "measure (\<lambda>x. case x of Inl (node, _) \<Rightarrow> size node
                                        | Inr (nodes, _) \<Rightarrow> size_list size nodes)")
  show "wf (measure (\<lambda>x. case x of Inl (node, _) \<Rightarrow> size node
                                  | Inr (nodes, _) \<Rightarrow> size_list size nodes))"
    by simp
next
  fix node :: node and NT :: node_type_tags and cache :: metrics_cache
  show "(Inr (node_children node, NT, ownMetrics node NT, cache), Inl (node, NT, cache))
          \<in> measure (\<lambda>x. case x of Inl (node, _) \<Rightarrow> size node
                                   | Inr (nodes, _) \<Rightarrow> size_list size nodes)"
    using size_node_children [of node] by simp
qed simp_all

section \<open>Vocabulary of the statements and example data\<close>

text \<open>
  A range filter is active with lower bound \<open>lo\<close>: the custom minimum parses to \<open>lo\<close>, or
  the selected named range exists and its \<open>min\<close> parses to \<open>lo\<close>.
\<close>

definition activeLowerBound :: "range_filter \<Rightarrow> range_collection \<Rightarrow> real \<Rightarrow> bool" where
  "activeLowerBound fs rc lo =
     (if currentSelection fs = ''custom'' then parseFloat (customMin fs) = Fin lo
      else currentSelection fs \<noteq> ''any'' \<and> currentSelection fs \<noteq> [] \<and>
           (case rc (currentSelection fs) of
              Some r \<Rightarrow> parseFloat (range_min r) = Fin lo
            | None \<Rightarrow> False))"

text \<open>The initial filter state of 1. constants.js and a flat record for the examples.\<close>

definition anyFilter :: range_filter where
  "anyFilter = \<lparr> currentSelection = ''any'', customMin = JStr [], customMax = JStr [] \<rparr>"

definition allTypes :: "string \<rightharpoonup> bool" where
  "allTypes = map_of [(''pillar'', True), (''parent'', True), (''subtopic'', True),
                      (''cluster'', True), (''keywords'', True)]"

definition mkItem :: "string \<Rightarrow> string \<Rightarrow> string \<Rightarrow> jsval \<Rightarrow> flat_record" where
  "mkItem n t p sv =
     \<lparr> item_name = Some n, item_type = Some t, item_searchVolume = sv,
       item_keywordDifficulty = JNum 20, item_cpc = JNum 1,
       item_totalKeywords = JUndefined, item_totalClusters = JUndefined,
       item_fullHierarchyPath = Some p, item_metadata = None,
       item_keyword = JUndefined, item_keywords = None \<rparr>"

text \<open>
  The pillar-scoping rule in the words of the specification: the path starts with
  \<^verbatim>\<open>"<selectedPillar> > "\<close>, or the record is a Pillar named \<^verbatim>\<open>selectedPillar\<close>.
\<close>

definition claimedPillarKeeps :: "flat_record \<Rightarrow> string \<Rightarrow> node_type_tags \<Rightarrow> bool" where
  "claimedPillarKeeps item selectedPillar NT =
     ((case item_fullHierarchyPath item of
         Some path \<Rightarrow> startsWith path (selectedPillar @ '' > '')
       | None \<Rightarrow> False) \<or>
      (item_type item = Some (PILLAR NT) \<and> item_name item = Some selectedPillar))"

text \<open>
  The rule the code applies: a Pillar record is judged by its name alone, any other record
  by its path string alone.
\<close>

definition scopedToPillar :: "flat_record \<Rightarrow> string \<Rightarrow> node_type_tags \<Rightarrow> bool" where
  "scopedToPillar item selectedPillar NT =
     (if item_type item = Some (PILLAR NT) then item_name item = Some selectedPillar
      else (case item_fullHierarchyPath item of
              Some path \<Rightarrow> startsWith path (selectedPillar @ '' > '')
            | None \<Rightarrow> False))"

text \<open>The nodes of a subtree and of a forest, in depth-first order, the root first.\<close>

fun subtreeNodes :: "node \<Rightarrow> node list" where
  "subtreeNodes (Node nm ty sz tk tc kd cp md kws cs) =
     Node nm ty sz tk tc kd cp md kws cs # concat (map subtreeNodes cs)"

definition forestNodes :: "node list \<Rightarrow> node list" where
  "forestNodes ns = concat (map subtreeNodes ns)"


text \<open>Keywords, nodes and a filter state for the examples.\<close>

definition mkKeyword :: "string \<Rightarrow> real \<Rightarrow> real \<Rightarrow> keyword_entry" where
  "mkKeyword k sv kd = \<lparr> keyword = JStr k, searchVolume = JNum sv, keywordDifficulty = JNum kd, cpc = JNull \<rparr>"

definition mkNode :: "string \<Rightarrow> string \<Rightarrow> keyword_entry list option \<Rightarrow> node list \<Rightarrow> node" where
  "mkNode n t kws cs = Node (Some n) (Some t) (JNum 0) (JNum 0) (JNum 0) (JNum 0) (JNum 0) None kws cs"

definition exampleFilters :: filters where
  "exampleFilters = \<lparr> nodeTypes = allTypes, flt_searchVolume = anyFilter,
                       flt_keywordDifficulty = anyFilter, flt_averageCPC = anyFilter \<rparr>"

text \<open>The search scenario: two keywords, as a cluster of the tree and as flat records, and
  the term \<^verbatim>\<open>dental crown\<close> unquoted and quoted.\<close>

definition unquotedTerm :: search_term where
  "unquotedTerm = \<lparr> term_value = ''dental crown'', isExact = False \<rparr>"

definition quotedTerm :: search_term where
  "quotedTerm = \<lparr> term_value = ''dental crown'', isExact = True \<rparr>"

definition dentalCluster :: node where
  "dentalCluster = mkNode ''crowns'' ''cluster''
     (Some [mkKeyword ''dental crown'' 100 50, mkKeyword ''dental crowns'' 80 40]) []"

definition dentalRecords :: "flat_record list" where
  "dentalRecords = [mkItem ''dental crown'' ''keywords'' ''crowns > dental crown'' (JNum 100),
                    mkItem ''dental crowns'' ''keywords'' ''crowns > dental crowns'' (JNum 80)]"

text \<open>The keyword strings carried by the top-level nodes of a filtered tree.\<close>

definition keptKeywords :: "node list \<Rightarrow> jsval list" where
  "keptKeywords ns = concat (map (\<lambda>n. case node_keywords n of None \<Rightarrow> [] | Some kws \<Rightarrow> map keyword kws) ns)"

text \<open>The four columns every exported row has, and a row typed with the Cluster tag of
  \<^verbatim>\<open>NodeType\<close> that carries two keywords and the number 30 in its three metrics.\<close>

definition fixedColumns :: "string list" where
  "fixedColumns = [''Keyword'', ''Search Volume'', ''Keyword Difficulty'', ''CPC (USD)'']"

definition clusterRow :: flat_record where
  "clusterRow = (mkItem ''c'' (CLUSTER NodeType) ''P > c'' (JNum 30))
     \<lparr> item_keywordDifficulty := JNum 30, item_cpc := JNum 30,
       item_keywords := Some [mkKeyword ''a'' 10 20, mkKeyword ''b'' 20 30] \<rparr>"

text \<open>
  The keyword strings of the \<^verbatim>\<open>keywords\<close> arrays of all Cluster nodes of a tree taken
  together, in depth-first order; and an input with one keyword under two top-level nodes.
\<close>

definition keywordStrings :: "keyword_entry list \<Rightarrow> string list" where
  "keywordStrings kws = concat (map (\<lambda>kw. case keyword kw of JStr k \<Rightarrow> [k] | _ \<Rightarrow> []) kws)"

definition clusterKeywordStrings :: "node_type_tags \<Rightarrow> node list \<Rightarrow> string list" where
  "clusterKeywordStrings NT ns =
     concat (map (\<lambda>n. if node_type n = Some (CLUSTER NT)
                        then (case node_keywords n of Some kws \<Rightarrow> keywordStrings kws | None \<Rightarrow> [])
                        else [])
                 (forestNodes ns))"

definition twoPillars :: "node list" where
  "twoPillars =
     [mkNode ''A'' ''pillar'' None [mkNode ''c1'' ''cluster'' (Some [mkKeyword ''seo tips'' 100 10]) []],
      mkNode ''B'' ''pillar'' None [mkNode ''c2'' ''cluster'' (Some [mkKeyword ''seo tips'' 5 90]) []]]"

text \<open>
  The keywords that count for a node's metrics: those of the Cluster nodes of its subtree,
  in depth-first order.
\<close>

definition clusterKeywords :: "node_type_tags \<Rightarrow> node \<Rightarrow> keyword_entry list" where
  "clusterKeywords NT n =
     (if node_type n = Some (CLUSTER NT)
      then (case node_keywords n of Some kws \<Rightarrow> kws | None \<Rightarrow> [])
      else [])"

definition subtreeKeywords :: "node_type_tags \<Rightarrow> node \<Rightarrow> keyword_entry list" where
  "subtreeKeywords NT n = concat (map (clusterKeywords NT) (subtreeNodes n))"

text \<open>A keyword supplies a metric when the field is a number; it then contributes the
  pair of the metric and its volume (0 when the volume is not a number).\<close>

definition kdOf :: "keyword_entry \<Rightarrow> (real \<times> real) list" where
  "kdOf kw = (case numberOrNull (keywordDifficulty kw) of
                Some d \<Rightarrow> [(d, numberOrZero (searchVolume kw))]
              | None \<Rightarrow> [])"

definition cpcOf :: "keyword_entry \<Rightarrow> (real \<times> real) list" where
  "cpcOf kw = (case numberOrNull (cpc kw) of
                 Some c \<Rightarrow> [(c, numberOrZero (searchVolume kw))]
               | None \<Rightarrow> [])"

definition kdContributions :: "node_type_tags \<Rightarrow> node \<Rightarrow> (real \<times> real) list" where
  "kdContributions NT n = concat (map kdOf (subtreeKeywords NT n))"

definition cpcContributions :: "node_type_tags \<Rightarrow> node \<Rightarrow> (real \<times> real) list" where
  "cpcContributions NT n = concat (map cpcOf (subtreeKeywords NT n))"

text \<open>
  The averaging policy in the words of the specification: the volume-weighted average
  when the summed volume is positive, else the plain mean of the metric values when there
  is one at least, else 0.
\<close>

definition policyAverage :: "(real \<times> real) list \<Rightarrow> real" where
  "policyAverage items =
     (if sum_list (map snd items) > 0
      then sum_list (map (\<lambda>(x, v). x * v) items) / sum_list (map snd items)
      else if items \<noteq> [] then sum_list (map fst items) / real (length items)
      else 0)"

text \<open>A pillar over two clusters: its weighted difficulty is 8000 / 400 = 20, while the
  mean of the clusters' own averages would be 30.\<close>

definition metricsExample :: node where
  "metricsExample =
     mkNode ''P'' ''pillar'' None
       [mkNode ''c1'' ''cluster'' (Some [mkKeyword ''a'' 100 50, mkKeyword ''b'' 0 80]) [],
        mkNode ''c2'' ''cluster'' (Some [mkKeyword ''c'' 300 10]) []]"

text \<open>A cache is consistent when each entry is what the function computes for its node
  without a cache; the empty cache of a fresh pass is.\<close>

definition cacheConsistent :: "node_type_tags \<Rightarrow> metrics_cache \<Rightarrow> bool" where
  "cacheConsistent NT cache =
     (case cache of
        None \<Rightarrow> True
      | Some c \<Rightarrow> \<forall>n m. c n = Some m \<longrightarrow> m = fst (calculateDynamicNodeMetrics n NT None))"

text \<open>The raw accumulators of \<open>m\<close> are the sums over the contributions \<open>X\<close> (difficulty)
  and \<open>Y\<close> (cost per click).\<close>

definition accumulates :: "metrics \<Rightarrow> (real \<times> real) list \<Rightarrow> (real \<times> real) list \<Rightarrow> bool" where
  "accumulates m X Y =
     (weightedKDSum m = sum_list (map (\<lambda>(x, v). x * v) X) \<and>
      totalVolumeForKD m = sum_list (map snd X) \<and>
      simpleKDSum m = sum_list (map fst X) \<and>
      itemsWithKD m = real (length X) \<and>
      weightedCPCSum m = sum_list (map (\<lambda>(x, v). x * v) Y) \<and>
      totalVolumeForCPC m = sum_list (map snd Y) \<and>
      simpleCPCSum m = sum_list (map fst Y) \<and>
      itemsWithCPC m = real (length Y))"

text \<open>The names of flat records, and the keyword strings of all \<^verbatim>\<open>keywords\<close> arrays of a
  forest (of nodes of any type), both in order.\<close>

definition recordNames :: "flat_record list \<Rightarrow> string list" where
  "recordNames recs = concat (map (\<lambda>r. case item_name r of Some k \<Rightarrow> [k] | None \<Rightarrow> []) recs)"

definition nodeKeywordStrings :: "node list \<Rightarrow> string list" where
  "nodeKeywordStrings ns =
     concat (map (\<lambda>n. case node_keywords n of Some kws \<Rightarrow> keywordStrings kws | None \<Rightarrow> [])
                 (forestNodes ns))"

text \<open>A keyword record whose difficulty is null.\<close>

definition kdAbsent :: flat_record where
  "kdAbsent = (mkItem ''kw'' ''keywords'' ''P > kw'' (JNum 5)) \<lparr> item_keywordDifficulty := JNull \<rparr>"

section \<open>Evaluation rules\<close>

lemmas char_defs = isDigit_def isSpace_def digit_chars_def upper_letters_def lower_letters_def toLowerChar_def toUpperChar_def isWordChar_def
lemmas pf_defs = parseFloatStr_def exponentOf_def scale10_def digitsValue_def digitValue_def

section \<open>Range filters: inclusive bounds and malformed settings\<close>

lemma parseFloat_empty: "parseFloat (JStr []) = NaN"
  by (simp add: parseFloatStr_def)

lemma parseFloat_Fin_defined: "parseFloat b = Fin x \<Longrightarrow> b \<noteq> JNull \<and> b \<noteq> JStr []"
  by (auto simp: parseFloatStr_def)

lemma checkRange_custom:
  assumes "parseFloat value = Fin v" and "currentSelection fs = ''custom''"
  shows "checkRangeSelectionFilter_internal value fs rc =
           (\<not> belowMin (Fin v) (if customMin fs = JStr [] then None else Some (parseFloat (customMin fs)))
            \<and> \<not> aboveMax (Fin v) (if customMax fs = JStr [] then None else Some (parseFloat (customMax fs))))"
  using assms by (simp add: checkRangeSelectionFilter_internal_def Let_def)

lemma checkRange_named:
  assumes "parseFloat value = Fin v" and "currentSelection fs \<noteq> ''custom''"
    and "currentSelection fs \<noteq> ''any''" and "currentSelection fs \<noteq> []"
    and "rc (currentSelection fs) = Some r"
  shows "checkRangeSelectionFilter_internal value fs rc =
           (\<not> belowMin (Fin v) (if range_min r \<noteq> JNull then Some (parseFloat (range_min r)) else None)
            \<and> \<not> aboveMax (Fin v) (if range_max r \<noteq> JNull then Some (parseFloat (range_max r)) else None))"
  using assms by (simp add: checkRangeSelectionFilter_internal_def Let_def)

lemma belowMin_Fin: "belowMin (Fin v) (Some (Fin lo)) = (v < lo)"
  by (simp add: belowMin_def)

lemma aboveMax_Fin: "aboveMax (Fin v) (Some (Fin hi)) = (hi < v)"
  by (simp add: aboveMax_def num_greater_def)

text \<open>
  Claim C5. For a value that parses to a number and a range filter that resolves to two
  defined bounds (custom bounds that both parse, or a named range whose \<open>min\<close> and \<open>max\<close>
  both parse), \<^verbatim>\<open>checkRangeSelectionFilter\<close> returns false exactly when the value is
  strictly below the lower bound or strictly above the upper bound. Both ends are
  inclusive: in a range with \<open>lo \<le> hi\<close> a value equal to \<open>lo\<close> or to \<open>hi\<close> passes.
\<close>

theorem checkRange_inclusive:
  assumes val: "parseFloat value = Fin v"
    and bounds: "(currentSelection fs = ''custom'' \<and>
            parseFloat (customMin fs) = Fin lo \<and> parseFloat (customMax fs) = Fin hi) \<or>
         (currentSelection fs \<noteq> ''any'' \<and> currentSelection fs \<noteq> [] \<and>
            currentSelection fs \<noteq> ''custom'' \<and>
            (case rc (currentSelection fs) of
               Some r \<Rightarrow> parseFloat (range_min r) = Fin lo \<and> parseFloat (range_max r) = Fin hi
             | None \<Rightarrow> False))"
  shows "checkRangeSelectionFilter_internal value fs rc = (\<not> (v < lo \<or> hi < v))
         \<and> (lo \<le> hi \<and> (v = lo \<or> v = hi) \<longrightarrow> checkRangeSelectionFilter_internal value fs rc)"
proof -
  have main: "checkRangeSelectionFilter_internal value fs rc = (\<not> (v < lo \<or> hi < v))"
    using bounds
  proof (elim disjE conjE)
    assume c: "currentSelection fs = ''custom''"
      and lo: "parseFloat (customMin fs) = Fin lo" and hi: "parseFloat (customMax fs) = Fin hi"
    from lo hi have "customMin fs \<noteq> JStr []" "customMax fs \<noteq> JStr []"
      using parseFloat_Fin_defined by blast+
    then show ?thesis
      using val c lo hi by (simp add: checkRange_custom belowMin_Fin aboveMax_Fin)
  next
    assume sel: "currentSelection fs \<noteq> ''any''" "currentSelection fs \<noteq> []"
        "currentSelection fs \<noteq> ''custom''"
      and r: "case rc (currentSelection fs) of
                 Some r \<Rightarrow> parseFloat (range_min r) = Fin lo \<and> parseFloat (range_max r) = Fin hi
               | None \<Rightarrow> False"
    from r obtain rg where rg: "rc (currentSelection fs) = Some rg"
      and lo: "parseFloat (range_min rg) = Fin lo" and hi: "parseFloat (range_max rg) = Fin hi"
      by (cases "rc (currentSelection fs)") auto
    from lo hi have "range_min rg \<noteq> JNull" "range_max rg \<noteq> JNull"
      using parseFloat_Fin_defined by blast+
    then show ?thesis
      using val sel rg lo hi by (simp add: checkRange_named belowMin_Fin aboveMax_Fin)
  qed
  then show ?thesis
    by auto
qed

theorem checkRange_inclusive_witness:
  "checkRangeSelectionFilter_internal (JNum 10)
     \<lparr>currentSelection = ''1-10'', customMin = JStr [], customMax = JStr []\<rparr> SEARCH_VOLUME_RANGES
   \<and> \<not> checkRangeSelectionFilter_internal (JNum 11)
     \<lparr>currentSelection = ''1-10'', customMin = JStr [], customMax = JStr []\<rparr> SEARCH_VOLUME_RANGES
   \<and> checkRangeSelectionFilter_internal (JNum 2)
     \<lparr>currentSelection = ''custom'', customMin = JStr ''2'', customMax = JStr ''5''\<rparr> Map.empty"
  using checkRange_inclusive [of "JNum 10" 10 "\<lparr>currentSelection = ''1-10'', customMin = JStr [], customMax = JStr []\<rparr>" 1 10 SEARCH_VOLUME_RANGES]
    checkRange_inclusive [of "JNum 11" 11 "\<lparr>currentSelection = ''1-10'', customMin = JStr [], customMax = JStr []\<rparr>" 1 10 SEARCH_VOLUME_RANGES]
    checkRange_inclusive [of "JNum 2" 2 "\<lparr>currentSelection = ''custom'', customMin = JStr ''2'', customMax = JStr ''5''\<rparr>" 2 5 Map.empty]
  by (simp add: SEARCH_VOLUME_RANGES_def mk_range_def char_defs pf_defs)

lemma checkRange_NaN_value: "parseFloat value = NaN \<Longrightarrow> checkRangeSelectionFilter_internal value fs rc"
  by (simp add: checkRangeSelectionFilter_internal_def)

lemma belowMin_unbounded: "b = JStr [] \<or> parseFloat b = NaN \<Longrightarrow>
    \<not> belowMin val (if b = JStr [] then None else Some (parseFloat b))"
  by (auto simp: belowMin_def)

lemma aboveMax_unbounded: "b = JStr [] \<or> parseFloat b = NaN \<Longrightarrow>
    \<not> aboveMax val (if b = JStr [] then None else Some (parseFloat b))"
  by (auto simp: aboveMax_def)

lemma checkRange_unknown_key:
  assumes "currentSelection fs \<noteq> ''custom''" and "rc (currentSelection fs) = None"
  shows "checkRangeSelectionFilter_internal value fs rc"
  using assms by (simp add: checkRangeSelectionFilter_internal_def Let_def)

lemma checkRange_custom_any:
  assumes "currentSelection fs = ''custom''"
  shows "checkRangeSelectionFilter_internal value fs rc =
           (parseFloat value = NaN \<or>
            (\<not> belowMin (parseFloat value) (if customMin fs = JStr [] then None else Some (parseFloat (customMin fs)))
             \<and> \<not> aboveMax (parseFloat value) (if customMax fs = JStr [] then None else Some (parseFloat (customMax fs)))))"
  using assms by (simp add: checkRangeSelectionFilter_internal_def Let_def)

text \<open>
  Claim C7. Malformed range settings are fail-open. A selection that names no entry of
  the range table lets every value pass. With the selection \<^verbatim>\<open>custom\<close>, a bound that is
  empty or does not parse is no constraint: when both bounds are so, every value passes;
  when one is, only the other bound decides. The function is total in every case.
\<close>

theorem checkRange_fail_open:
  "(currentSelection fs \<noteq> ''custom'' \<and> rc (currentSelection fs) = None
      \<longrightarrow> checkRangeSelectionFilter_internal value fs rc)
   \<and> (currentSelection fs = ''custom''
        \<and> (customMin fs = JStr [] \<or> parseFloat (customMin fs) = NaN)
        \<and> (customMax fs = JStr [] \<or> parseFloat (customMax fs) = NaN)
      \<longrightarrow> checkRangeSelectionFilter_internal value fs rc)
   \<and> (currentSelection fs = ''custom''
        \<and> (customMin fs = JStr [] \<or> parseFloat (customMin fs) = NaN)
        \<and> parseFloat value = Fin v \<and> parseFloat (customMax fs) = Fin hi
      \<longrightarrow> checkRangeSelectionFilter_internal value fs rc = (v \<le> hi))
   \<and> (currentSelection fs = ''custom''
        \<and> (customMax fs = JStr [] \<or> parseFloat (customMax fs) = NaN)
        \<and> parseFloat value = Fin v \<and> parseFloat (customMin fs) = Fin lo
      \<longrightarrow> checkRangeSelectionFilter_internal value fs rc = (lo \<le> v))"
proof (intro conjI impI)
  assume "currentSelection fs \<noteq> ''custom'' \<and> rc (currentSelection fs) = None"
  then show "checkRangeSelectionFilter_internal value fs rc"
    by (simp add: checkRange_unknown_key)
next
  assume "currentSelection fs = ''custom''
        \<and> (customMin fs = JStr [] \<or> parseFloat (customMin fs) = NaN)
        \<and> (customMax fs = JStr [] \<or> parseFloat (customMax fs) = NaN)"
  then show "checkRangeSelectionFilter_internal value fs rc"
    using belowMin_unbounded [of "customMin fs" "parseFloat value"]
      aboveMax_unbounded [of "customMax fs" "parseFloat value"]
    by (simp add: checkRange_custom_any)
next
  assume a: "currentSelection fs = ''custom''
        \<and> (customMin fs = JStr [] \<or> parseFloat (customMin fs) = NaN)
        \<and> parseFloat value = Fin v \<and> parseFloat (customMax fs) = Fin hi"
  then have "customMax fs \<noteq> JStr []"
    using parseFloat_Fin_defined by blast
  with a show "checkRangeSelectionFilter_internal value fs rc = (v \<le> hi)"
    using belowMin_unbounded [of "customMin fs" "Fin v"]
    by (simp add: checkRange_custom_any aboveMax_Fin not_less)
next
  assume a: "currentSelection fs = ''custom''
        \<and> (customMax fs = JStr [] \<or> parseFloat (customMax fs) = NaN)
        \<and> parseFloat value = Fin v \<and> parseFloat (customMin fs) = Fin lo"
  then have "customMin fs \<noteq> JStr []"
    using parseFloat_Fin_defined by blast
  with a show "checkRangeSelectionFilter_internal value fs rc = (lo \<le> v)"
    using aboveMax_unbounded [of "customMax fs" "Fin v"]
    by (simp add: checkRange_custom_any belowMin_Fin not_less)
qed

theorem checkRange_fail_open_witness:
  "checkRangeSelectionFilter_internal (JNum 7)
     \<lparr>currentSelection = ''7-9'', customMin = JStr [], customMax = JStr []\<rparr> SEARCH_VOLUME_RANGES
   \<and> checkRangeSelectionFilter_internal (JNum 7)
     \<lparr>currentSelection = ''custom'', customMin = JStr [], customMax = JStr ''abc''\<rparr> SEARCH_VOLUME_RANGES
   \<and> \<not> checkRangeSelectionFilter_internal (JNum 7)
     \<lparr>currentSelection = ''custom'', customMin = JStr ''x1'', customMax = JStr ''5''\<rparr> SEARCH_VOLUME_RANGES
   \<and> checkRangeSelectionFilter_internal (JNum 7)
     \<lparr>currentSelection = ''custom'', customMin = JStr ''5'', customMax = JNull\<rparr> SEARCH_VOLUME_RANGES"
  using checkRange_fail_open [of "\<lparr>currentSelection = ''7-9'', customMin = JStr [], customMax = JStr []\<rparr>" SEARCH_VOLUME_RANGES "JNum 7"]
    checkRange_fail_open [of "\<lparr>currentSelection = ''custom'', customMin = JStr [], customMax = JStr ''abc''\<rparr>" SEARCH_VOLUME_RANGES "JNum 7"]
    checkRange_fail_open [of "\<lparr>currentSelection = ''custom'', customMin = JStr ''x1'', customMax = JStr ''5''\<rparr>" SEARCH_VOLUME_RANGES "JNum 7" 7 5]
    checkRange_fail_open [of "\<lparr>currentSelection = ''custom'', customMin = JStr ''5'', customMax = JNull\<rparr>" SEARCH_VOLUME_RANGES "JNum 7" 7 _ 5]
  by (simp add: SEARCH_VOLUME_RANGES_def mk_range_def char_defs pf_defs)

section \<open>The flat filter: absent metrics and pillar scoping\<close>

lemma or0_falsy: "\<not> truthy v \<Longrightarrow> or0 v = JNum 0"
  by (simp add: or0_def)

lemma checkRange_below_lower:
  assumes "activeLowerBound fs rc lo" and "parseFloat value = Fin v" and "v < lo"
  shows "\<not> checkRangeSelectionFilter_internal value fs rc"
proof (cases "currentSelection fs = ''custom''")
  case True
  with assms(1) have lo: "parseFloat (customMin fs) = Fin lo"
    by (simp add: activeLowerBound_def)
  then have "customMin fs \<noteq> JStr []"
    using parseFloat_Fin_defined by blast
  with True lo assms(2,3) show ?thesis
    by (simp add: checkRange_custom_any belowMin_Fin)
next
  case False
  with assms(1) obtain r where sel: "currentSelection fs \<noteq> ''any''" "currentSelection fs \<noteq> []"
    and r: "rc (currentSelection fs) = Some r" and lo: "parseFloat (range_min r) = Fin lo"
    by (cases "rc (currentSelection fs)") (auto simp: activeLowerBound_def)
  from lo have "range_min r \<noteq> JNull"
    using parseFloat_Fin_defined by blast
  with False sel r lo assms(2,3) show ?thesis
    by (simp add: checkRange_named belowMin_Fin)
qed

lemma numericKeeps_unfold:
  "numericKeeps item flt chk svRanges kdRanges cpcRanges =
     (chk (if truthy (item_searchVolume item) then item_searchVolume item else JNum 0)
          (flt_searchVolume flt) svRanges \<and>
      chk (if truthy (item_keywordDifficulty item) then item_keywordDifficulty item else JNum 0)
          (flt_keywordDifficulty flt) kdRanges \<and>
      chk (if truthy (item_cpc item) then item_cpc item else JNum 0)
          (flt_averageCPC flt) cpcRanges)"
  by (simp add: numericKeeps_def or0_def)

lemma filterFlat_member:
  "item \<in> set (filterFlatListByType_internal sourceList flt selectedPillar searchTermsArray
                  singleSelectedType NT chk svRanges kdRanges cpcRanges excludedKeywords) =
     (item \<in> set (pillarFilteredList sourceList selectedPillar NT) \<and>
      numericKeeps item flt chk svRanges kdRanges cpcRanges \<and>
      \<not> isExcluded excludedKeywords (item_name item) \<and>
      (searchTermsArray = [] \<or> searchKeeps item searchTermsArray singleSelectedType NT))"
  by (auto simp: filterFlatListByType_internal_def Let_def)

lemma numericKeeps_rejects_falsy:
  assumes "(\<not> truthy (item_searchVolume item) \<and> activeLowerBound (flt_searchVolume flt) svRanges lo) \<or>
           (\<not> truthy (item_keywordDifficulty item) \<and> activeLowerBound (flt_keywordDifficulty flt) kdRanges lo) \<or>
           (\<not> truthy (item_cpc item) \<and> activeLowerBound (flt_averageCPC flt) cpcRanges lo)"
    and "0 < lo"
  shows "\<not> numericKeeps item flt checkRangeSelectionFilter_internal svRanges kdRanges cpcRanges"
proof -
  have zero: "parseFloat (JNum 0) = Fin 0"
    by simp
  from assms(1) show ?thesis
  proof (elim disjE conjE)
    assume "\<not> truthy (item_searchVolume item)" "activeLowerBound (flt_searchVolume flt) svRanges lo"
    then show ?thesis
      using checkRange_below_lower [OF _ zero assms(2)] by (simp add: numericKeeps_def or0_falsy)
  next
    assume "\<not> truthy (item_keywordDifficulty item)"
      "activeLowerBound (flt_keywordDifficulty flt) kdRanges lo"
    then show ?thesis
      using checkRange_below_lower [OF _ zero assms(2)] by (simp add: numericKeeps_def or0_falsy)
  next
    assume "\<not> truthy (item_cpc item)" "activeLowerBound (flt_averageCPC flt) cpcRanges lo"
    then show ?thesis
      using checkRange_below_lower [OF _ zero assms(2)] by (simp add: numericKeeps_def or0_falsy)
  qed
qed

text \<open>
  Claim C10. \<^verbatim>\<open>filterFlatListByType\<close> evaluates the range filter of a missing, null or
  otherwise falsy \<^verbatim>\<open>searchVolume\<close>, \<^verbatim>\<open>keywordDifficulty\<close> or \<^verbatim>\<open>cpc\<close> against the number 0:
  whatever the range check, the numeric stage keeps the record exactly when the check
  passes at 0 for that metric and at the value (or 0) of the other two. A record is in the
  result exactly when it passes the pillar stage, this numeric stage, the exclusion and
  the search. So with \<^verbatim>\<open>checkRangeSelectionFilter\<close> such a record is dropped by an active
  range on that metric whose lower bound is greater than 0; a range that contains 0 keeps
  it.
\<close>

theorem falsy_metric_is_zero:
  "(\<not> truthy (item_searchVolume item) \<longrightarrow>
      numericKeeps item flt chk svRanges kdRanges cpcRanges =
        (chk (JNum 0) (flt_searchVolume flt) svRanges \<and>
         chk (if truthy (item_keywordDifficulty item) then item_keywordDifficulty item else JNum 0)
             (flt_keywordDifficulty flt) kdRanges \<and>
         chk (if truthy (item_cpc item) then item_cpc item else JNum 0)
             (flt_averageCPC flt) cpcRanges))
   \<and> (\<not> truthy (item_keywordDifficulty item) \<longrightarrow>
      numericKeeps item flt chk svRanges kdRanges cpcRanges =
        (chk (if truthy (item_searchVolume item) then item_searchVolume item else JNum 0)
             (flt_searchVolume flt) svRanges \<and>
         chk (JNum 0) (flt_keywordDifficulty flt) kdRanges \<and>
         chk (if truthy (item_cpc item) then item_cpc item else JNum 0)
             (flt_averageCPC flt) cpcRanges))
   \<and> (\<not> truthy (item_cpc item) \<longrightarrow>
      numericKeeps item flt chk svRanges kdRanges cpcRanges =
        (chk (if truthy (item_searchVolume item) then item_searchVolume item else JNum 0)
             (flt_searchVolume flt) svRanges \<and>
         chk (if truthy (item_keywordDifficulty item) then item_keywordDifficulty item else JNum 0)
             (flt_keywordDifficulty flt) kdRanges \<and>
         chk (JNum 0) (flt_averageCPC flt) cpcRanges))
   \<and> (item \<in> set (filterFlatListByType_internal sourceList flt selectedPillar searchTermsArray
                      singleSelectedType NT chk svRanges kdRanges cpcRanges excludedKeywords) =
        (item \<in> set (pillarFilteredList sourceList selectedPillar NT) \<and>
         numericKeeps item flt chk svRanges kdRanges cpcRanges \<and>
         \<not> isExcluded excludedKeywords (item_name item) \<and>
         (searchTermsArray = [] \<or> searchKeeps item searchTermsArray singleSelectedType NT)))
   \<and> (0 < lo \<and>
        ((\<not> truthy (item_searchVolume item) \<and> activeLowerBound (flt_searchVolume flt) svRanges lo) \<or>
         (\<not> truthy (item_keywordDifficulty item) \<and> activeLowerBound (flt_keywordDifficulty flt) kdRanges lo) \<or>
         (\<not> truthy (item_cpc item) \<and> activeLowerBound (flt_averageCPC flt) cpcRanges lo)) \<longrightarrow>
      item \<notin> set (filterFlatListByType_internal sourceList flt selectedPillar searchTermsArray
                      singleSelectedType NT checkRangeSelectionFilter_internal
                      svRanges kdRanges cpcRanges excludedKeywords))"
proof (intro conjI impI)
  assume "\<not> truthy (item_searchVolume item)"
  then show "numericKeeps item flt chk svRanges kdRanges cpcRanges =
        (chk (JNum 0) (flt_searchVolume flt) svRanges \<and>
         chk (if truthy (item_keywordDifficulty item) then item_keywordDifficulty item else JNum 0)
             (flt_keywordDifficulty flt) kdRanges \<and>
         chk (if truthy (item_cpc item) then item_cpc item else JNum 0)
             (flt_averageCPC flt) cpcRanges)"
    by (simp add: numericKeeps_unfold)
next
  assume "\<not> truthy (item_keywordDifficulty item)"
  then show "numericKeeps item flt chk svRanges kdRanges cpcRanges =
        (chk (if truthy (item_searchVolume item) then item_searchVolume item else JNum 0)
             (flt_searchVolume flt) svRanges \<and>
         chk (JNum 0) (flt_keywordDifficulty flt) kdRanges \<and>
         chk (if truthy (item_cpc item) then item_cpc item else JNum 0)
             (flt_averageCPC flt) cpcRanges)"
    by (simp add: numericKeeps_unfold)
next
  assume "\<not> truthy (item_cpc item)"
  then show "numericKeeps item flt chk svRanges kdRanges cpcRanges =
        (chk (if truthy (item_searchVolume item) then item_searchVolume item else JNum 0)
             (flt_searchVolume flt) svRanges \<and>
         chk (if truthy (item_keywordDifficulty item) then item_keywordDifficulty item else JNum 0)
             (flt_keywordDifficulty flt) kdRanges \<and>
         chk (JNum 0) (flt_averageCPC flt) cpcRanges)"
    by (simp add: numericKeeps_unfold)
next
  show "item \<in> set (filterFlatListByType_internal sourceList flt selectedPillar searchTermsArray
                      singleSelectedType NT chk svRanges kdRanges cpcRanges excludedKeywords) =
        (item \<in> set (pillarFilteredList sourceList selectedPillar NT) \<and>
         numericKeeps item flt chk svRanges kdRanges cpcRanges \<and>
         \<not> isExcluded excludedKeywords (item_name item) \<and>
         (searchTermsArray = [] \<or> searchKeeps item searchTermsArray singleSelectedType NT))"
    by (rule filterFlat_member)
next
  assume a: "0 < lo \<and>
        ((\<not> truthy (item_searchVolume item) \<and> activeLowerBound (flt_searchVolume flt) svRanges lo) \<or>
         (\<not> truthy (item_keywordDifficulty item) \<and> activeLowerBound (flt_keywordDifficulty flt) kdRanges lo) \<or>
         (\<not> truthy (item_cpc item) \<and> activeLowerBound (flt_averageCPC flt) cpcRanges lo))"
  then have "\<not> numericKeeps item flt checkRangeSelectionFilter_internal svRanges kdRanges cpcRanges"
    using numericKeeps_rejects_falsy [of item flt svRanges lo kdRanges cpcRanges] by blast
  then show "item \<notin> set (filterFlatListByType_internal sourceList flt selectedPillar searchTermsArray
                      singleSelectedType NT checkRangeSelectionFilter_internal
                      svRanges kdRanges cpcRanges excludedKeywords)"
    by (simp add: filterFlat_member)
qed

theorem falsy_metric_is_zero_witness:
  "\<not> truthy JNull
   \<and> activeLowerBound (anyFilter\<lparr>currentSelection := ''11-100''\<rparr>) SEARCH_VOLUME_RANGES 11
   \<and> filterFlatListByType_internal [mkItem ''kw'' ''keywords'' ''P > kw'' JNull]
        \<lparr> nodeTypes = allTypes, flt_searchVolume = anyFilter\<lparr>currentSelection := ''11-100''\<rparr>,
          flt_keywordDifficulty = anyFilter, flt_averageCPC = anyFilter \<rparr>
        ''all'' [] ''keywords'' NodeType checkRangeSelectionFilter_internal
        SEARCH_VOLUME_RANGES KEYWORD_DIFFICULTY_RANGES CPC_RANGES [] = []
   \<and> numericKeeps kdAbsent (exampleFilters\<lparr>flt_keywordDifficulty := anyFilter\<lparr>currentSelection := ''0-14''\<rparr>\<rparr>)
        checkRangeSelectionFilter_internal SEARCH_VOLUME_RANGES KEYWORD_DIFFICULTY_RANGES CPC_RANGES
   \<and> filterFlatListByType_internal [kdAbsent]
        (exampleFilters\<lparr>flt_keywordDifficulty := anyFilter\<lparr>currentSelection := ''0-14''\<rparr>\<rparr>)
        ''all'' [] ''keywords'' NodeType checkRangeSelectionFilter_internal
        SEARCH_VOLUME_RANGES KEYWORD_DIFFICULTY_RANGES CPC_RANGES [] = [kdAbsent]
   \<and> filterFlatListByType_internal [kdAbsent]
        (exampleFilters\<lparr>flt_keywordDifficulty := anyFilter\<lparr>currentSelection := ''15-29''\<rparr>\<rparr>)
        ''all'' [] ''keywords'' NodeType checkRangeSelectionFilter_internal
        SEARCH_VOLUME_RANGES KEYWORD_DIFFICULTY_RANGES CPC_RANGES [] = []"
  using falsy_metric_is_zero [of "mkItem ''kw'' ''keywords'' ''P > kw'' JNull"
      "\<lparr> nodeTypes = allTypes, flt_searchVolume = anyFilter\<lparr>currentSelection := ''11-100''\<rparr>,
         flt_keywordDifficulty = anyFilter, flt_averageCPC = anyFilter \<rparr>"
      checkRangeSelectionFilter_internal SEARCH_VOLUME_RANGES KEYWORD_DIFFICULTY_RANGES CPC_RANGES
      "[mkItem ''kw'' ''keywords'' ''P > kw'' JNull]" "''all''" "[]" "''keywords''" NodeType "[]" 11]
    falsy_metric_is_zero [of kdAbsent
      "exampleFilters\<lparr>flt_keywordDifficulty := anyFilter\<lparr>currentSelection := ''0-14''\<rparr>\<rparr>"
      checkRangeSelectionFilter_internal SEARCH_VOLUME_RANGES KEYWORD_DIFFICULTY_RANGES CPC_RANGES
      "[kdAbsent]" "''all''" "[]" "''keywords''" NodeType "[]" 15]
  by (simp add: kdAbsent_def mkItem_def anyFilter_def exampleFilters_def activeLowerBound_def
      SEARCH_VOLUME_RANGES_def KEYWORD_DIFFICULTY_RANGES_def CPC_RANGES_def mk_range_def
      filterFlatListByType_internal_def pillarFilteredList_def numericKeeps_def or0_def
      isExcluded_def checkRangeSelectionFilter_internal_def belowMin_def aboveMax_def num_greater_def
      Let_def)

lemma startsWith_empty_text: "p \<noteq> [] \<Longrightarrow> \<not> startsWith [] p"
  by (cases p) simp_all

lemma pillarKeeps_scoped: "pillarKeeps item selectedPillar NT = scopedToPillar item selectedPillar NT"
  by (cases "item_fullHierarchyPath item")
     (simp_all add: pillarKeeps_def scopedToPillar_def startsWith_empty_text)

text \<open>
  Claim C8, as amended. For a non-empty \<^verbatim>\<open>selectedPillar\<close> other than \<^verbatim>\<open>all\<close>, the
  pillar-scoping stage of \<^verbatim>\<open>filterFlatListByType\<close> keeps exactly the Pillar records whose
  name equals \<^verbatim>\<open>selectedPillar\<close> (with or without a path) and the records of any other
  type whose path string starts with \<^verbatim>\<open>"<selectedPillar> > "\<close>; a record without a path
  string is kept only as such a Pillar. With an empty \<^verbatim>\<open>selectedPillar\<close> (or \<^verbatim>\<open>all\<close>) the
  stage keeps every record.
\<close>

theorem pillar_scoping_exact:
  "(selectedPillar \<noteq> ''all'' \<and> selectedPillar \<noteq> [] \<longrightarrow>
      pillarFilteredList sourceList selectedPillar NT =
      filter (\<lambda>item. scopedToPillar item selectedPillar NT) sourceList)
   \<and> (selectedPillar = ''all'' \<or> selectedPillar = [] \<longrightarrow>
      pillarFilteredList sourceList selectedPillar NT = sourceList)"
  by (simp add: pillarFilteredList_def pillarKeeps_scoped)

theorem pillar_scoping_exact_witness:
  "pillarFilteredList
     [mkItem ''A'' ''pillar'' ''A'' JNull, mkItem ''x'' ''cluster'' ''A > x'' JNull,
      mkItem ''B'' ''pillar'' ''B'' JNull, mkItem ''z'' ''cluster'' ''B > z'' JNull,
      mkItem ''y'' ''keywords'' ''A > x > y'' JNull] ''A'' NodeType
   = [mkItem ''A'' ''pillar'' ''A'' JNull, mkItem ''x'' ''cluster'' ''A > x'' JNull,
      mkItem ''y'' ''keywords'' ''A > x > y'' JNull]
   \<and> pillarFilteredList [mkItem ''x'' ''cluster'' ''A > x'' JNull] [] NodeType
     = [mkItem ''x'' ''cluster'' ''A > x'' JNull]"
  using pillar_scoping_exact [of "''A''"
      "[mkItem ''A'' ''pillar'' ''A'' JNull, mkItem ''x'' ''cluster'' ''A > x'' JNull,
        mkItem ''B'' ''pillar'' ''B'' JNull, mkItem ''z'' ''cluster'' ''B > z'' JNull,
        mkItem ''y'' ''keywords'' ''A > x > y'' JNull]" NodeType]
    pillar_scoping_exact [of "[]" "[mkItem ''x'' ''cluster'' ''A > x'' JNull]" NodeType]
  by (simp add: scopedToPillar_def mkItem_def NodeType_def)

text \<open>
  Claim C8 as first stated (every \<^verbatim>\<open>selectedPillar\<close> other than \<^verbatim>\<open>all\<close>; every record with
  the path prefix is kept) fails twice: a Pillar record nested under the selected pillar
  has a path with the prefix and is dropped all the same, and an empty selection drops
  nothing.
\<close>

theorem pillar_scoping_counterexample:
  "pillarFilteredList [mkItem ''B'' ''pillar'' ''A > B'' JNull] ''A'' NodeType
     \<noteq> filter (\<lambda>item. claimedPillarKeeps item ''A'' NodeType) [mkItem ''B'' ''pillar'' ''A > B'' JNull]
   \<and> pillarFilteredList [mkItem ''x'' ''cluster'' ''A > x'' JNull] [] NodeType
     \<noteq> filter (\<lambda>item. claimedPillarKeeps item [] NodeType) [mkItem ''x'' ''cluster'' ''A > x'' JNull]"
  by (simp add: pillarFilteredList_def pillarKeeps_def claimedPillarKeeps_def mkItem_def NodeType_def)

section \<open>The tree filter: cleared keywords and kept ancestors\<close>

lemmas filter_defs = visitNode_def includeNode_def passesNumerics_def passesSearch_def
  filteredKeywordsOf_def keywordPasses_def typeSelected_def typeKey_def withChildrenAndKeywords_def
  isExcluded_def lowerOrEmpty_def centroidOf_def tfidfOf_def termMatches_def
lemmas example_defs = mkKeyword_def mkNode_def exampleFilters_def allTypes_def anyFilter_def mkItem_def
  NodeType_def

lemma subtreeNodes_sel: "subtreeNodes n = n # forestNodes (node_children n)"
  by (cases n) (simp add: forestNodes_def)

lemma forestNodes_simps [simp]:
  "forestNodes [] = []"
  "forestNodes (n # ns) = n # forestNodes (node_children n) @ forestNodes ns"
  "forestNodes (xs @ ys) = forestNodes xs @ forestNodes ys"
  by (simp_all add: forestNodes_def subtreeNodes_sel)

lemma filteredKeywordsOf_off:
  "\<not> typeSelected flt (KEYWORDS NT) \<Longrightarrow>
     filteredKeywordsOf node flt terms NT chk sv kd cp excl = ([], False)"
  by (simp add: filteredKeywordsOf_def split: option.splits)

lemma visitNode_cases:
  "visitNode node vis flt terms NT flag chk sv kd cp excl = [] \<or>
   visitNode node vis flt terms NT flag chk sv kd cp excl =
     [withChildrenAndKeywords node vis (fst (filteredKeywordsOf node flt terms NT chk sv kd cp excl))]"
  by (simp add: visitNode_def Let_def split: prod.splits)

lemma forestNodes_visitNode:
  "n \<in> set (forestNodes (visitNode node vis flt terms NT flag chk sv kd cp excl)) \<Longrightarrow>
     n = withChildrenAndKeywords node vis (fst (filteredKeywordsOf node flt terms NT chk sv kd cp excl))
     \<or> n \<in> set (forestNodes vis)"
  using visitNode_cases [of node vis flt terms NT flag chk sv kd cp excl]
  by (auto simp: withChildrenAndKeywords_def)

lemma keywords_cleared_internal:
  "\<not> typeSelected flt (KEYWORDS NT) \<Longrightarrow>
   n \<in> set (forestNodes (filterHierarchicalTreeRecursive_internal nodes flt terms NT flag chk sv kd cp excl))
     \<Longrightarrow> node_keywords n = Some []"
proof (induction nodes flt terms NT flag chk sv kd cp excl arbitrary: n
       rule: filterHierarchicalTreeRecursive_internal.induct)
  case (1 flt terms NT flag chk sv kd cp excl)
  then show ?case by simp
next
  case (2 node rest flt terms NT flag chk sv kd cp excl)
  note off = "2.prems"(1)
  show ?case
  proof (cases "flag \<and> isExcluded excl (node_name node)")
    case True
    with 2 show ?thesis by simp
  next
    case False
    let ?vis = "filterHierarchicalTreeRecursive_internal (node_children node) flt terms NT flag chk sv kd cp excl"
    from False "2.prems"(2) have
      "n \<in> set (forestNodes (visitNode node ?vis flt terms NT flag chk sv kd cp excl))
       \<or> n \<in> set (forestNodes (filterHierarchicalTreeRecursive_internal rest flt terms NT flag chk sv kd cp excl))"
      by (auto simp: Let_def)
    then show ?thesis
    proof
      assume "n \<in> set (forestNodes (visitNode node ?vis flt terms NT flag chk sv kd cp excl))"
      then have "n = withChildrenAndKeywords node ?vis (fst (filteredKeywordsOf node flt terms NT chk sv kd cp excl))
                 \<or> n \<in> set (forestNodes ?vis)"
        by (rule forestNodes_visitNode)
      then show ?thesis
      proof
        assume "n = withChildrenAndKeywords node ?vis (fst (filteredKeywordsOf node flt terms NT chk sv kd cp excl))"
        with off show ?thesis
          by (simp add: filteredKeywordsOf_off withChildrenAndKeywords_def)
      next
        assume "n \<in> set (forestNodes ?vis)"
        with False off "2.IH"(2) show ?thesis by blast
      qed
    next
      assume "n \<in> set (forestNodes (filterHierarchicalTreeRecursive_internal rest flt terms NT flag chk sv kd cp excl))"
      with False off "2.IH"(3) show ?thesis by blast
    qed
  qed
qed

text \<open>
  Claim C9. When the Keywords type is toggled off, every node in the output of
  \<^verbatim>\<open>filterHierarchicalTreeRecursive\<close>, at any depth and of any type (so every Cluster
  node in particular), carries the empty \<^verbatim>\<open>keywords\<close> array, whatever the canonical
  cluster holds.
\<close>

theorem keywords_cleared_when_deselected:
  assumes "\<not> typeSelected flt (KEYWORDS NT)"
  shows "\<forall>n \<in> set (forestNodes (filterHierarchicalTreeRecursive nodesToFilter flt searchTermsArray NT
                       applyFiltersToNodeNames svRanges kdRanges cpcRanges excludedKeywords)).
           node_keywords n = Some []"
  using assms keywords_cleared_internal
  unfolding filterHierarchicalTreeRecursive_def by blast


theorem keywords_cleared_when_deselected_witness:
  "\<not> typeSelected (exampleFilters\<lparr>nodeTypes := allTypes(''keywords'' \<mapsto> False)\<rparr>) (KEYWORDS NodeType)
   \<and> map node_keywords (forestNodes (filterHierarchicalTreeRecursive
         [mkNode ''P'' ''pillar'' None
            [mkNode ''c'' ''cluster'' (Some [mkKeyword ''a'' 10 20, mkKeyword ''b'' 5 30]) []]]
         (exampleFilters\<lparr>nodeTypes := allTypes(''keywords'' \<mapsto> False)\<rparr>) [] NodeType False
         SEARCH_VOLUME_RANGES KEYWORD_DIFFICULTY_RANGES CPC_RANGES []))
     = [Some [], Some []]"
  using keywords_cleared_when_deselected [of "exampleFilters\<lparr>nodeTypes := allTypes(''keywords'' \<mapsto> False)\<rparr>"
      NodeType "[mkNode ''P'' ''pillar'' None
            [mkNode ''c'' ''cluster'' (Some [mkKeyword ''a'' 10 20, mkKeyword ''b'' 5 30]) []]]"
      "[]" False SEARCH_VOLUME_RANGES KEYWORD_DIFFICULTY_RANGES CPC_RANGES "[]"]
  by (simp add: filterHierarchicalTreeRecursive_def filter_defs example_defs Let_def)













section \<open>Search terms: exact and word-boundary matching\<close>

text \<open>An escaped search text always parses, as a literal between two word boundaries.\<close>

lemma parsePattern_plain:
  "c \<notin> set syntaxChars \<Longrightarrow> parsePattern (c # rest) = map_option ((#) (Literal c)) (parsePattern rest)"
  by (cases rest) (auto simp: syntaxChars_def)

lemma parsePattern_escaped:
  "c \<in> set syntaxChars \<Longrightarrow>
     parsePattern (backslash # c # rest) = map_option ((#) (Literal c)) (parsePattern rest)"
  by (auto simp: syntaxChars_def backslash_def)

lemma parsePattern_boundary:
  "parsePattern (backslash # CHR ''b'' # rest) = map_option ((#) WordBoundary) (parsePattern rest)"
  by simp

lemma parsePattern_escapeRegExp:
  "parsePattern (escapeRegExp v @ rest) = map_option ((@) (map Literal v)) (parsePattern rest)"
proof (induction v)
  case Nil
  show ?case by (simp add: escapeRegExp_def option.map_ident)
next
  case (Cons c v)
  have step: "parsePattern (escapeRegExp (c # v) @ rest) =
                map_option ((#) (Literal c)) (parsePattern (escapeRegExp v @ rest))"
  proof (cases "c \<in> set syntaxChars")
    case True
    then show ?thesis
      using parsePattern_escaped [of c "escapeRegExp v @ rest"] by (simp add: escapeRegExp_def)
  next
    case False
    then show ?thesis
      using parsePattern_plain [of c "escapeRegExp v @ rest"] by (simp add: escapeRegExp_def)
  qed
  show ?case
    unfolding step Cons.IH by (simp add: option.map_comp comp_def)
qed

lemma wordBoundaryTest_literal:
  "wordBoundaryTest v text = matchFrom (WordBoundary # map Literal v @ [WordBoundary]) None text"
proof -
  have "parsePattern ([backslash, CHR ''b''] @ escapeRegExp v @ [backslash, CHR ''b''])
          = Some (WordBoundary # map Literal v @ [WordBoundary])"
    using parsePattern_escapeRegExp [of v "[backslash, CHR ''b'']"]
    by (simp del: parsePattern.simps add: parsePattern_boundary [of "escapeRegExp v @ [backslash, CHR ''b'']"]
          parsePattern_boundary [of "[]"] option.map_comp comp_def) simp
  then show ?thesis
    by (simp add: wordBoundaryTest_def regExpTest_def)
qed


text \<open>
  Claim C4 as first stated (the unquoted term matches both keywords) fails: the unquoted
  term does not match \<^verbatim>\<open>dental crowns\<close>. After \<^verbatim>\<open>crown\<close> comes the word character \<^verbatim>\<open>s\<close>,
  so the closing word boundary fails, and the flat filter returns one record.
\<close>

theorem unquoted_term_counterexample:
  "\<not> termMatches unquotedTerm (toLowerCase ''dental crowns'')
   \<and> map item_name (filterFlatListByType_internal dentalRecords exampleFilters ''all'' [unquotedTerm]
        ''keywords'' NodeType checkRangeSelectionFilter_internal
        SEARCH_VOLUME_RANGES KEYWORD_DIFFICULTY_RANGES CPC_RANGES [])
     = [Some ''dental crown'']"
  by code_simp

text \<open>
  Claim C4, as amended. For the keywords \<^verbatim>\<open>dental crown\<close> and \<^verbatim>\<open>dental crowns\<close>, in the
  tree filter and in the flat filter alike, the unquoted term \<^verbatim>\<open>dental crown\<close> keeps
  only \<^verbatim>\<open>dental crown\<close>, and so does the quoted term.
\<close>

theorem exact_and_word_boundary_search:
  "keptKeywords (filterHierarchicalTreeRecursive [dentalCluster] exampleFilters [unquotedTerm] NodeType
       False SEARCH_VOLUME_RANGES KEYWORD_DIFFICULTY_RANGES CPC_RANGES []) = [JStr ''dental crown'']
   \<and> keptKeywords (filterHierarchicalTreeRecursive [dentalCluster] exampleFilters [quotedTerm] NodeType
       False SEARCH_VOLUME_RANGES KEYWORD_DIFFICULTY_RANGES CPC_RANGES []) = [JStr ''dental crown'']
   \<and> map item_name (filterFlatListByType_internal dentalRecords exampleFilters ''all'' [unquotedTerm]
        ''keywords'' NodeType checkRangeSelectionFilter_internal
        SEARCH_VOLUME_RANGES KEYWORD_DIFFICULTY_RANGES CPC_RANGES []) = [Some ''dental crown'']
   \<and> map item_name (filterFlatListByType_internal dentalRecords exampleFilters ''all'' [quotedTerm]
        ''keywords'' NodeType checkRangeSelectionFilter_internal
        SEARCH_VOLUME_RANGES KEYWORD_DIFFICULTY_RANGES CPC_RANGES []) = [Some ''dental crown'']"
  by code_simp


text \<open>Where the two kinds of term differ: a longer keyword holding the words, and an
  escaped syntax character that matches itself only.\<close>

lemma word_boundary_delimits:
  "wordBoundaryTest ''dental crown'' ''best dental crown cost''
   \<and> \<not> wordBoundaryTest ''dental crown'' ''dental crowns''
   \<and> wordBoundaryTest ''a.b'' ''x a.b y'' \<and> \<not> wordBoundaryTest ''a.b'' ''x acb y''"
  by code_simp

section \<open>CSV export: the columns of a row\<close>

text \<open>The two extra columns appear exactly for the literal tag \<^verbatim>\<open>CLUSTER\<close> with a
  \<^verbatim>\<open>keywords\<close> array.\<close>

lemma flattenNodeData_columns:
  "map fst (flattenNodeData numToStr node) =
     fixedColumns @ (if item_type node = Some ''CLUSTER'' \<and> item_keywords node \<noteq> None
                     then [''Keyword Count'', ''Keywords''] else [])"
  by (auto simp: flattenNodeData_def fixedColumns_def Let_def split: option.splits)

text \<open>
  Claim C6 says that the export adds \<^verbatim>\<open>Keyword Count\<close> and \<^verbatim>\<open>Keywords\<close> exactly for
  rows of the Cluster type. In the code a row whose type is the Cluster tag,
  \<^verbatim>\<open>NodeType.CLUSTER = 'cluster'\<close>, never gets them: \<^verbatim>\<open>flattenNodeData\<close> compares the type
  with the literal \<^verbatim>\<open>'CLUSTER'\<close>.
\<close>

theorem cluster_rows_get_no_extra_columns:
  "item_type node = Some (CLUSTER NodeType) \<longrightarrow>
     map fst (flattenNodeData numToStr node) = fixedColumns"
  by (simp add: flattenNodeData_columns NodeType_def)

theorem cluster_rows_get_no_extra_columns_witness:
  "item_type clusterRow = Some (CLUSTER NodeType)
   \<and> item_keywords clusterRow = Some [mkKeyword ''a'' 10 20, mkKeyword ''b'' 20 30]
   \<and> map fst (flattenNodeData (\<lambda>r. ''30'') clusterRow) = fixedColumns
   \<and> convertToCSV (\<lambda>r. ''30'') [clusterRow] =
       ''Keyword,Search Volume,Keyword Difficulty,CPC (USD)'' @ [CHR 0x0A] @ ''c,30,30,30''"
  using cluster_rows_get_no_extra_columns [of clusterRow "\<lambda>r. ''30''"]
  by (simp add: clusterRow_def mkItem_def mkKeyword_def NodeType_def fixedColumns_def convertToCSV_def
      flattenNodeData_def csvCell_def orEmpty_def nameOrEmpty_def)

text \<open>With the literal tag the same row does get the two columns, the keywords joined by
  \<^verbatim>\<open>"; "\<close>.\<close>

lemma literal_tag_gets_columns:
  "map fst (flattenNodeData numToStr (clusterRow\<lparr>item_type := Some ''CLUSTER''\<rparr>))
     = fixedColumns @ [''Keyword Count'', ''Keywords'']
   \<and> map_of (flattenNodeData numToStr (clusterRow\<lparr>item_type := Some ''CLUSTER''\<rparr>)) ''Keywords''
     = Some (JStr ''a; b'')
   \<and> map_of (flattenNodeData numToStr (clusterRow\<lparr>item_type := Some ''CLUSTER''\<rparr>)) ''Keyword Count''
     = Some (JNum 2)"
  by (simp add: clusterRow_def mkItem_def mkKeyword_def fixedColumns_def flattenNodeData_def)

section \<open>Normalisation: duplicates across top-level nodes\<close>

text \<open>
  Claim C1 says that one pass deduplicates keywords across the entire input, in the tree
  and in the flat list. For two top-level nodes that each hold a cluster with the keyword
  \<^verbatim>\<open>seo tips\<close>, the canonical tree keeps both occurrences (each top-level node is
  transformed with a fresh set), while the flat keyword list keeps the first only.
\<close>

theorem tree_keeps_duplicate_across_roots:
  "(case processRawDataFromFile (Inr (Some twoPillars)) NodeType of
      Inl message \<Rightarrow> False
    | Inr ds \<Rightarrow>
        clusterKeywordStrings NodeType (hierarchicalData ds) = [''seo tips'', ''seo tips''] \<and>
        map item_name (allKeywordsData ds) = [Some ''seo tips''] \<and>
        map item_searchVolume (allKeywordsData ds) = [JNum 100])"
  by code_simp

text \<open>
  What one pass does guarantee. The extraction threads one set through the whole input:
  the keyword flat list never holds a keyword string twice. The transformation of one
  top-level node threads one set through that node's subtree: within it no keyword string
  occurs twice.
\<close>

lemma recordNames_simps [simp]:
  "recordNames [] = []"
  "recordNames (r # rs) = (case item_name r of Some k \<Rightarrow> [k] | None \<Rightarrow> []) @ recordNames rs"
  "recordNames (xs @ ys) = recordNames xs @ recordNames ys"
  by (simp_all add: recordNames_def)

lemma extractKeywords_dedup:
  "distinct (recordNames (fst (extractKeywords kws NT p fp seen)))
   \<and> set (recordNames (fst (extractKeywords kws NT p fp seen))) \<inter> seen = {}
   \<and> snd (extractKeywords kws NT p fp seen) = seen \<union> set (recordNames (fst (extractKeywords kws NT p fp seen)))"
proof (induction kws arbitrary: seen)
  case Nil
  show ?case by simp
next
  case (Cons kw kws)
  show ?case
  proof (cases "keyword kw")
    case (JStr k)
    show ?thesis
    proof (cases "k \<in> seen")
      case True
      with JStr Cons.IH [of seen] show ?thesis by simp
    next
      case False
      with JStr Cons.IH [of "insert k seen"] show ?thesis
        by (auto simp: keywordRecord_def split: prod.splits)
    qed
  qed (use Cons.IH [of seen] in simp_all)
qed

lemma ownExtracted_dedup:
  "distinct (recordNames (keywordsList (fst (ownExtracted node NT p fp seen))))
   \<and> set (recordNames (keywordsList (fst (ownExtracted node NT p fp seen)))) \<inter> seen = {}
   \<and> snd (ownExtracted node NT p fp seen) =
       seen \<union> set (recordNames (keywordsList (fst (ownExtracted node NT p fp seen))))"
proof (cases "node_keywords node")
  case None
  then show ?thesis
    by (simp add: ownExtracted_def noneExtracted_def Let_def)
next
  case (Some kws)
  with extractKeywords_dedup [of kws NT p fp seen] show ?thesis
    by (auto simp: ownExtracted_def noneExtracted_def Let_def split: prod.splits)
qed

lemma extractAll_dedup:
  "distinct (recordNames (keywordsList (fst (extractAllNodesAndKeywords nodes NT path level seen))))
   \<and> set (recordNames (keywordsList (fst (extractAllNodesAndKeywords nodes NT path level seen)))) \<inter> seen = {}
   \<and> snd (extractAllNodesAndKeywords nodes NT path level seen) =
       seen \<union> set (recordNames (keywordsList (fst (extractAllNodesAndKeywords nodes NT path level seen))))"
proof (induction nodes NT path level seen rule: extractAllNodesAndKeywords.induct)
  case (1 NT currentPath level seenKeywords)
  show ?case by (simp add: noneExtracted_def)
next
  case (2 node nodes NT currentPath level seenKeywords)
  show ?case
  proof (cases "falsy_str (node_type node)")
    case True
    with 2(1) show ?thesis by simp
  next
    case False
    define newPath where "newPath = (case node_name node of
                          None \<Rightarrow> currentPath
                        | Some n \<Rightarrow> if n = [] then currentPath else currentPath @ [n])"
    define fp where "fp = join '' > '' newPath"
    obtain own seen1 where o: "ownExtracted node NT newPath fp seenKeywords = (own, seen1)"
      by (cases "ownExtracted node NT newPath fp seenKeywords")
    obtain nested seen2 where n: "extractAllNodesAndKeywords (node_children node) NT newPath (level + 1) seen1 = (nested, seen2)"
      by (cases "extractAllNodesAndKeywords (node_children node) NT newPath (level + 1) seen1")
    obtain later seen3 where l: "extractAllNodesAndKeywords nodes NT currentPath level seen2 = (later, seen3)"
      by (cases "extractAllNodesAndKeywords nodes NT currentPath level seen2")
    have res: "extractAllNodesAndKeywords (node # nodes) NT currentPath level seenKeywords =
                 (concatExtracted (concatExtracted own nested) later, seen3)"
      using False o n l by (simp add: newPath_def fp_def Let_def)
    from ownExtracted_dedup [of node NT newPath fp seenKeywords] o
    have O: "distinct (recordNames (keywordsList own))"
        "set (recordNames (keywordsList own)) \<inter> seenKeywords = {}"
        "seen1 = seenKeywords \<union> set (recordNames (keywordsList own))"
      by simp_all
    from 2(2) [OF False newPath_def fp_def o [symmetric] refl] n
    have N: "distinct (recordNames (keywordsList nested))"
        "set (recordNames (keywordsList nested)) \<inter> seen1 = {}"
        "seen2 = seen1 \<union> set (recordNames (keywordsList nested))"
      by simp_all
    from 2(3) [OF False newPath_def fp_def o [symmetric] refl n [symmetric] refl] l
    have L: "distinct (recordNames (keywordsList later))"
        "set (recordNames (keywordsList later)) \<inter> seen2 = {}"
        "seen3 = seen2 \<union> set (recordNames (keywordsList later))"
      by simp_all
    from O N L show ?thesis
      unfolding res by (auto simp: concatExtracted_def)
  qed
qed


lemma flat_keywords_deduplicated:
  "processRawDataFromFile parsed NT = Inr ds \<Longrightarrow> distinct (recordNames (allKeywordsData ds))"
  using extractAll_dedup [of _ NT "[]" 0 "{}"]
  by (auto simp: processRawDataFromFile_def Let_def split: sum.splits)

lemma keywordStrings_simps [simp]:
  "keywordStrings [] = []"
  "keywordStrings (kw # kws) = (case keyword kw of JStr k \<Rightarrow> [k] | _ \<Rightarrow> []) @ keywordStrings kws"
  by (simp_all add: keywordStrings_def)

lemma uniqueKeywords_dedup:
  "distinct (keywordStrings (fst (uniqueKeywords kws seen)))
   \<and> set (keywordStrings (fst (uniqueKeywords kws seen))) \<inter> seen = {}
   \<and> snd (uniqueKeywords kws seen) = seen \<union> set (keywordStrings (fst (uniqueKeywords kws seen)))"
proof (induction kws arbitrary: seen)
  case Nil
  show ?case by simp
next
  case (Cons kw kws)
  show ?case
  proof (cases "keyword kw")
    case (JStr k)
    show ?thesis
    proof (cases "k \<in> seen")
      case True
      with JStr Cons.IH [of seen] show ?thesis by simp
    next
      case False
      with JStr Cons.IH [of "insert k seen"] show ?thesis
        by (auto split: prod.splits)
    qed
  qed (use Cons.IH [of seen] in simp_all)
qed

lemma nodeKeywordStrings_simps [simp]:
  "nodeKeywordStrings [] = []"
  "nodeKeywordStrings (n # ns) =
     (case node_keywords n of Some kws \<Rightarrow> keywordStrings kws | None \<Rightarrow> [])
     @ nodeKeywordStrings (node_children n) @ nodeKeywordStrings ns"
  by (simp_all add: nodeKeywordStrings_def)

lemma transform_dedup:
  "distinct (nodeKeywordStrings [fst (transformNodeForHierarchicalView node seen)])
   \<and> set (nodeKeywordStrings [fst (transformNodeForHierarchicalView node seen)]) \<inter> seen = {}
   \<and> snd (transformNodeForHierarchicalView node seen) =
       seen \<union> set (nodeKeywordStrings [fst (transformNodeForHierarchicalView node seen)])"
  "distinct (nodeKeywordStrings (fst (transformChildren nodes seen)))
   \<and> set (nodeKeywordStrings (fst (transformChildren nodes seen))) \<inter> seen = {}
   \<and> snd (transformChildren nodes seen) =
       seen \<union> set (nodeKeywordStrings (fst (transformChildren nodes seen)))"
proof (induction node seen and nodes seen rule: transformNodeForHierarchicalView_transformChildren.induct)
  case (1 nm ty sz totalKws totalCls avgKD avgCPC md kwsOpt children seenKeywords)
  obtain kws' seen1 where k: "(case kwsOpt of
               None \<Rightarrow> (None, seenKeywords)
             | Some kws \<Rightarrow> (let (kept, s) = uniqueKeywords kws seenKeywords in (Some kept, s))) = (kws', seen1)"
    by (cases "(case kwsOpt of
               None \<Rightarrow> (None, seenKeywords)
             | Some kws \<Rightarrow> (let (kept, s) = uniqueKeywords kws seenKeywords in (Some kept, s)))")
  have "distinct (case kws' of Some kws \<Rightarrow> keywordStrings kws | None \<Rightarrow> [])
      \<and> set (case kws' of Some kws \<Rightarrow> keywordStrings kws | None \<Rightarrow> []) \<inter> seenKeywords = {}
      \<and> seen1 = seenKeywords \<union> set (case kws' of Some kws \<Rightarrow> keywordStrings kws | None \<Rightarrow> [])"
  proof (cases kwsOpt)
    case None
    with k show ?thesis by auto
  next
    case (Some kws)
    with k uniqueKeywords_dedup [of kws seenKeywords] show ?thesis
      by (auto split: prod.splits)
  qed
  then have K: "distinct (case kws' of Some kws \<Rightarrow> keywordStrings kws | None \<Rightarrow> [])"
      "set (case kws' of Some kws \<Rightarrow> keywordStrings kws | None \<Rightarrow> []) \<inter> seenKeywords = {}"
      "seen1 = seenKeywords \<union> set (case kws' of Some kws \<Rightarrow> keywordStrings kws | None \<Rightarrow> [])"
    by simp_all
  obtain cs' seen2 where c: "transformChildren children seen1 = (cs', seen2)"
    by (cases "transformChildren children seen1")
  from 1 [OF k [symmetric] refl] c
  have C: "distinct (nodeKeywordStrings cs')" "set (nodeKeywordStrings cs') \<inter> seen1 = {}"
      "seen2 = seen1 \<union> set (nodeKeywordStrings cs')"
    by simp_all
  have res: "transformNodeForHierarchicalView
               (Node nm ty sz totalKws totalCls avgKD avgCPC md kwsOpt children) seenKeywords =
             (Node nm ty (or0 sz) (or0 totalKws) (or0 totalCls) (or0 avgKD) (or0 avgCPC) md kws' cs', seen2)"
    using k c by simp
  from K C show ?case
    unfolding res by auto
next
  case (2 seenKeywords)
  show ?case by simp
next
  case (3 child children seenKeywords)
  obtain c' seen1 where c: "transformNodeForHierarchicalView child seenKeywords = (c', seen1)"
    by (cases "transformNodeForHierarchicalView child seenKeywords")
  obtain cs' seen2 where cs: "transformChildren children seen1 = (cs', seen2)"
    by (cases "transformChildren children seen1")
  from 3(1) c
  have A: "distinct (nodeKeywordStrings [c'])" "set (nodeKeywordStrings [c']) \<inter> seenKeywords = {}"
      "seen1 = seenKeywords \<union> set (nodeKeywordStrings [c'])"
    by simp_all
  from 3(2) [OF c [symmetric] refl] cs
  have B: "distinct (nodeKeywordStrings cs')" "set (nodeKeywordStrings cs') \<inter> seen1 = {}"
      "seen2 = seen1 \<union> set (nodeKeywordStrings cs')"
    by simp_all
  have res: "transformChildren (child # children) seenKeywords = (c' # cs', seen2)"
    using c cs by simp
  from A B show ?case
    unfolding res by (cases c') auto
qed

lemma tree_deduplicated_per_root:
  "distinct (nodeKeywordStrings [fst (transformNodeForHierarchicalView node {})])"
  using transform_dedup(1) [of node "{}"] by blast

section \<open>Aggregated metrics: averages from raw accumulators\<close>

declare calculateDynamicNodeMetrics.simps [simp del]

lemma accumulates_initial:
  "accumulates initialMetrics [] []" "accumulates (initialMetrics\<lparr>totalClusters := 1\<rparr>) [] []"
  by (simp_all add: accumulates_def initialMetrics_def)

lemma accumulates_addKeyword:
  "accumulates m X Y \<Longrightarrow> accumulates (addKeyword m kw) (X @ kdOf kw) (Y @ cpcOf kw)"
  by (cases "numberOrNull (keywordDifficulty kw)"; cases "numberOrNull (cpc kw)")
     (simp_all add: accumulates_def addKeyword_def kdOf_def cpcOf_def Let_def)

lemma accumulates_foldl:
  "accumulates m X Y \<Longrightarrow>
     accumulates (foldl addKeyword m kws) (X @ concat (map kdOf kws)) (Y @ concat (map cpcOf kws))"
proof (induction kws arbitrary: m X Y)
  case Nil
  then show ?case by simp
next
  case (Cons kw kws)
  from Cons.IH [OF accumulates_addKeyword [OF Cons.prems, of kw]]
  show ?case by simp
qed

lemma accumulates_addChild:
  "accumulates m X Y \<Longrightarrow> accumulates cm X' Y' \<Longrightarrow>
     accumulates (addChildMetrics m cm) (X @ X') (Y @ Y')"
  by (simp add: accumulates_def addChildMetrics_def)

lemma accumulates_setAverages:
  "accumulates m X Y \<Longrightarrow> accumulates (setAverages m) X Y"
  by (simp add: accumulates_def setAverages_def)

lemma averages_of_accumulated:
  assumes "accumulates m X Y"
  shows "averageKD (setAverages m) = policyAverage X" "averageCPC (setAverages m) = policyAverage Y"
  using assms by (auto simp: accumulates_def setAverages_def policyAverage_def)

lemma accumulates_own:
  "accumulates (ownMetrics n NT) (concat (map kdOf (clusterKeywords NT n)))
     (concat (map cpcOf (clusterKeywords NT n)))"
proof (cases "node_type n = Some (CLUSTER NT)")
  case True
  show ?thesis
  proof (cases "node_keywords n")
    case None
    with True show ?thesis
      by (simp add: ownMetrics_def clusterKeywords_def accumulates_initial)
  next
    case (Some kws)
    with True accumulates_foldl [OF accumulates_initial(2), of kws] show ?thesis
      by (cases kws) (simp_all add: ownMetrics_def clusterKeywords_def accumulates_initial)
  qed
next
  case False
  then show ?thesis
    by (simp add: ownMetrics_def clusterKeywords_def accumulates_initial split: option.splits)
qed

lemma subtreeKeywords_unfold:
  "subtreeKeywords NT n = clusterKeywords NT n @ concat (map (subtreeKeywords NT) (node_children n))"
proof -
  have "concat (map (clusterKeywords NT) (forestNodes cs)) = concat (map (subtreeKeywords NT) cs)" for cs
    by (induction cs) (simp_all add: subtreeKeywords_def subtreeNodes_sel)
  then show ?thesis
    by (simp add: subtreeKeywords_def subtreeNodes_sel)
qed

lemma contributions_unfold:
  "kdContributions NT n =
     concat (map kdOf (clusterKeywords NT n)) @ concat (map (kdContributions NT) (node_children n))"
  "cpcContributions NT n =
     concat (map cpcOf (clusterKeywords NT n)) @ concat (map (cpcContributions NT) (node_children n))"
proof -
  have flat: "concat (map f (concat (map (subtreeKeywords NT) cs))) =
          concat (map (\<lambda>c. concat (map f (subtreeKeywords NT c))) cs)"
    for f :: "keyword_entry \<Rightarrow> (real \<times> real) list" and cs
    by (induction cs) simp_all
  show "kdContributions NT n =
     concat (map kdOf (clusterKeywords NT n)) @ concat (map (kdContributions NT) (node_children n))"
    by (simp add: kdContributions_def [abs_def] subtreeKeywords_unfold [of NT n] flat)
  show "cpcContributions NT n =
     concat (map cpcOf (clusterKeywords NT n)) @ concat (map (cpcContributions NT) (node_children n))"
    by (simp add: cpcContributions_def [abs_def] subtreeKeywords_unfold [of NT n] flat)
qed

lemma uncached_stays_uncached:
  "cache = None \<Longrightarrow> snd (calculateDynamicNodeMetrics node NT cache) = None"
  "cache = None \<Longrightarrow> snd (addChildren nodes NT m cache) = None"
proof (induction node NT cache and nodes NT m cache rule: calculateDynamicNodeMetrics_addChildren.induct)
  case (1 node NT cache)
  have miss: "cacheGet cache node = None"
    using 1(2) by (simp add: cacheGet_def)
  from 1(1) [OF miss 1(2)]
  have "snd (addChildren (node_children node) NT (ownMetrics node NT) cache) = None" .
  then show ?case
    using miss
    by (auto simp: calculateDynamicNodeMetrics.simps [of node NT cache] cacheSet_def Let_def
        split: prod.splits)
next
  case (2 NT m cache)
  then show ?case by simp
next
  case (3 childNode children NT m cache)
  obtain cm c' where r: "calculateDynamicNodeMetrics childNode NT cache = (cm, c')"
    by (cases "calculateDynamicNodeMetrics childNode NT cache")
  with 3(1) [OF 3(3)] have "c' = None" by simp
  with 3(2) [of "(cm, c')" cm c'] r show ?case
    by simp
qed

lemma calc_uncached:
  "calculateDynamicNodeMetrics node NT None =
     (setAverages (fst (addChildren (node_children node) NT (ownMetrics node NT) None)), None)"
  using uncached_stays_uncached(2) [of None "node_children node" NT "ownMetrics node NT"]
  by (auto simp: calculateDynamicNodeMetrics.simps [of node NT None] cacheGet_def cacheSet_def Let_def
      split: prod.splits)

lemma addChildren_uncached:
  "addChildren (c # cs) NT m None =
     addChildren cs NT (addChildMetrics m (fst (calculateDynamicNodeMetrics c NT None))) None"
  using uncached_stays_uncached(1) [of None c NT]
  by (auto split: prod.splits)

lemma accumulates_uncached:
  "cache = None \<Longrightarrow>
     accumulates (fst (calculateDynamicNodeMetrics node NT cache))
       (kdContributions NT node) (cpcContributions NT node)"
  "cache = None \<Longrightarrow> accumulates m X Y \<Longrightarrow>
     accumulates (fst (addChildren nodes NT m cache))
       (X @ concat (map (kdContributions NT) nodes)) (Y @ concat (map (cpcContributions NT) nodes))"
proof (induction node NT cache and nodes NT m cache arbitrary: and X Y
       rule: calculateDynamicNodeMetrics_addChildren.induct)
  case (1 node NT cache)
  have miss: "cacheGet cache node = None"
    using 1(2) by (simp add: cacheGet_def)
  from 1(1) [OF miss 1(2) accumulates_own [of node NT]]
  have "accumulates (fst (addChildren (node_children node) NT (ownMetrics node NT) None))
          (kdContributions NT node) (cpcContributions NT node)"
    using 1(2) by (simp add: contributions_unfold [of NT node])
  then show ?case
    using 1(2) by (simp only: calc_uncached fst_conv accumulates_setAverages)
next
  case (2 NT m cache)
  then show ?case by simp
next
  case (3 childNode children NT m cache)
  obtain cm c' where r: "calculateDynamicNodeMetrics childNode NT cache = (cm, c')"
    by (cases "calculateDynamicNodeMetrics childNode NT cache")
  have c': "c' = None"
    using uncached_stays_uncached(1) [OF 3(3), of childNode NT] r by simp
  have cm: "accumulates cm (kdContributions NT childNode) (cpcContributions NT childNode)"
    using 3(1) [OF 3(3)] r by simp
  from 3(2) [of "(cm, c')" cm c' "X @ kdContributions NT childNode" "Y @ cpcContributions NT childNode"]
    r c' accumulates_addChild [OF 3(4) cm]
  show ?case
    by simp
qed

lemma cached_is_uncached:
  "cacheConsistent NT cache \<Longrightarrow>
     fst (calculateDynamicNodeMetrics node NT cache) = fst (calculateDynamicNodeMetrics node NT None)
     \<and> cacheConsistent NT (snd (calculateDynamicNodeMetrics node NT cache))"
  "cacheConsistent NT cache \<Longrightarrow>
     fst (addChildren nodes NT m cache) = fst (addChildren nodes NT m None)
     \<and> cacheConsistent NT (snd (addChildren nodes NT m cache))"
proof (induction node NT cache and nodes NT m cache
       rule: calculateDynamicNodeMetrics_addChildren.induct)
  case (1 node NT cache)
  show ?case
  proof (cases "cacheGet cache node")
    case (Some cached)
    then have "cached = fst (calculateDynamicNodeMetrics node NT None)"
      using 1(2) by (auto simp: cacheConsistent_def cacheGet_def split: option.splits)
    with Some 1(2) show ?thesis
      by (simp add: calculateDynamicNodeMetrics.simps [of node NT cache])
  next
    case None
    obtain summed c' where r: "addChildren (node_children node) NT (ownMetrics node NT) cache = (summed, c')"
      by (cases "addChildren (node_children node) NT (ownMetrics node NT) cache")
    from 1(1) [OF None 1(2)] r
    have s: "summed = fst (addChildren (node_children node) NT (ownMetrics node NT) None)"
      and c: "cacheConsistent NT c'"
      by simp_all
    have res: "setAverages summed = fst (calculateDynamicNodeMetrics node NT None)"
      using s by (simp only: calc_uncached fst_conv)
    have "cacheConsistent NT (cacheSet c' node (setAverages summed))"
      using c res by (auto simp: cacheConsistent_def cacheSet_def split: option.splits)
    with None r res show ?thesis
      by (simp add: calculateDynamicNodeMetrics.simps [of node NT cache] Let_def)
  qed
next
  case (2 NT m cache)
  then show ?case by simp
next
  case (3 childNode children NT m cache)
  obtain cm c' where r: "calculateDynamicNodeMetrics childNode NT cache = (cm, c')"
    by (cases "calculateDynamicNodeMetrics childNode NT cache")
  from 3(1) [OF 3(3)] r
  have cm: "cm = fst (calculateDynamicNodeMetrics childNode NT None)" and c: "cacheConsistent NT c'"
    by simp_all
  from 3(2) [of "(cm, c')" cm c', OF _ _ c] r cm
  show ?case
    by (simp add: addChildren_uncached del: addChildren.simps) simp
qed

text \<open>
  Claim C3. For every node, and every cache that is absent, empty or consistent,
  \<^verbatim>\<open>calculateDynamicNodeMetrics\<close> returns as \<^verbatim>\<open>averageKD\<close> and \<^verbatim>\<open>averageCPC\<close> the policy
  average of the keyword-level contributions of the whole subtree: the sums are taken
  over the keywords themselves, never over the children's averages. For the cluster with
  keywords \<^verbatim>\<open>[{sv:100,kd:50},{sv:0,kd:80}]\<close> the difficulty is 50.
\<close>

theorem averages_from_keyword_accumulators:
  "(cacheConsistent NT cache \<longrightarrow>
      averageKD (fst (calculateDynamicNodeMetrics node NT cache)) = policyAverage (kdContributions NT node) \<and>
      averageCPC (fst (calculateDynamicNodeMetrics node NT cache)) = policyAverage (cpcContributions NT node))
   \<and> averageKD (fst (calculateDynamicNodeMetrics
        (mkNode ''c'' ''cluster'' (Some [mkKeyword ''a'' 100 50, mkKeyword ''b'' 0 80]) [])
        NodeType (Some Map.empty))) = 50"
proof (intro conjI impI)
  assume "cacheConsistent NT cache"
  then have eq: "fst (calculateDynamicNodeMetrics node NT cache) = fst (calculateDynamicNodeMetrics node NT None)"
    using cached_is_uncached(1) by blast
  have "accumulates (fst (addChildren (node_children node) NT (ownMetrics node NT) None))
          (kdContributions NT node) (cpcContributions NT node)"
    using accumulates_uncached(2) [OF refl accumulates_own [of node NT], of "node_children node"]
    by (simp add: contributions_unfold [of NT node])
  then show "averageKD (fst (calculateDynamicNodeMetrics node NT cache)) = policyAverage (kdContributions NT node)"
    and "averageCPC (fst (calculateDynamicNodeMetrics node NT cache)) = policyAverage (cpcContributions NT node)"
    unfolding eq by (simp_all only: calc_uncached fst_conv averages_of_accumulated)
next
  show "averageKD (fst (calculateDynamicNodeMetrics
        (mkNode ''c'' ''cluster'' (Some [mkKeyword ''a'' 100 50, mkKeyword ''b'' 0 80]) [])
        NodeType (Some Map.empty))) = 50"
    by (simp add: calculateDynamicNodeMetrics.simps mkNode_def mkKeyword_def NodeType_def cacheGet_def
        cacheSet_def ownMetrics_def addKeyword_def setAverages_def initialMetrics_def numberOrZero_def Let_def)
qed


theorem averages_from_keyword_accumulators_witness:
  "cacheConsistent NodeType (Some Map.empty)
   \<and> kdContributions NodeType metricsExample = [(50, 100), (80, 0), (10, 300)]
   \<and> averageKD (fst (calculateDynamicNodeMetrics metricsExample NodeType (Some Map.empty))) = 20
   \<and> averageCPC (fst (calculateDynamicNodeMetrics metricsExample NodeType (Some Map.empty))) = 0"
  using averages_from_keyword_accumulators [of NodeType "Some Map.empty" metricsExample]
  by (simp add: cacheConsistent_def metricsExample_def mkNode_def mkKeyword_def NodeType_def
      kdContributions_def cpcContributions_def subtreeKeywords_def clusterKeywords_def kdOf_def cpcOf_def
      numberOrZero_def policyAverage_def)

end
